(* ===== verification/Prelude.thy ===== *)
theory Prelude
  imports Complex_Main "HOL-Library.Sublist"
begin

text \<open>
  Shared vocabulary of the development: the types that name the dashboard's
  values, Python's string predicates used by the code (\<open>str.startswith\<close>,
  case-insensitive \<open>str.contains\<close>) as executable functions proved equal to the
  library's \<open>prefix\<close> and \<open>sublist\<close>, Python truthiness of strings, and the
  generic list facts the component theories share.
\<close>

named_theorems table_simps "equations that evaluate the dashboard's tables"
named_theorems str_simps "equations of the string predicates of the model"

type_synonym amount = "int option"
  \<comment> \<open>a budget value after \<open>pd.to_numeric(errors='coerce')\<close>: \<open>None\<close> is NaN\<close>

text \<open>The Python exceptions the modelled code can raise, as values.\<close>

datatype py_error =
    ValueError string
  | AttributeError string
  | IndexError string
  | KeyError string

section \<open>Python string predicates\<close>

text \<open>
  \<open>s.startswith(p)\<close> is \<open>starts_with p s\<close>; the search of \<open>str.contains\<close> for a
  literal pattern is \<open>contains p s\<close>. Both are written as the character loops a
  string library runs, and are proved equal to the specifications \<open>prefix\<close> and
  \<open>sublist\<close> of \<open>HOL-Library.Sublist\<close>.
\<close>

fun starts_with :: "string \<Rightarrow> string \<Rightarrow> bool" where
  "starts_with [] s = True"
| "starts_with (c # cs) [] = False"
| "starts_with (c # cs) (d # ds) = (c = d \<and> starts_with cs ds)"

fun contains :: "string \<Rightarrow> string \<Rightarrow> bool" where
  "contains p [] = (p = [])"
| "contains p (c # cs) = (starts_with p (c # cs) \<or> contains p cs)"

text \<open>
  \<open>re.IGNORECASE\<close> on the ASCII letters: an upper-case letter (codes 65 to 90) has
  bit 5 clear, and setting it gives the lower-case letter.
\<close>

fun lower_char :: "char \<Rightarrow> char" where
  "lower_char (Char b0 b1 b2 b3 b4 b5 b6 b7) =
    (if (65::nat) \<le> of_char (Char b0 b1 b2 b3 b4 b5 b6 b7)
        \<and> (of_char (Char b0 b1 b2 b3 b4 b5 b6 b7) :: nat) \<le> 90
     then Char b0 b1 b2 b3 b4 True b6 b7 else Char b0 b1 b2 b3 b4 b5 b6 b7)"

definition lower :: "string \<Rightarrow> string" where
  "lower s = map lower_char s"

definition truthy_str :: "string \<Rightarrow> bool" where
  "truthy_str s \<longleftrightarrow> s \<noteq> []"
  \<comment> \<open>Python truthiness of a \<open>str\<close>, as in \<open>all([...])\<close> and \<open>if search_term:\<close>\<close>

text \<open>\<open>sep.join(xs)\<close>.\<close>

fun join_with :: "string \<Rightarrow> string list \<Rightarrow> string" where
  "join_with sep [] = []"
| "join_with sep [x] = x"
| "join_with sep (x # y # zs) = x @ sep @ join_with sep (y # zs)"

section \<open>Facts shared by the components\<close>

lemma starts_with_prefix [str_simps]: "starts_with p s = prefix p s"
  by (induction p s rule: starts_with.induct) auto

lemma contains_sublist [str_simps]: "contains p s = sublist p s"
proof (induction s)
  case Nil
  then show ?case by simp
next
  case (Cons c cs)
  then show ?case by (simp add: starts_with_prefix sublist_Cons_right)
qed

lemma contains_Nil [simp]: "contains [] s"
  by (simp add: contains_sublist)

lemma contains_Cons_start [simp]: "contains p (p @ s)"
  by (simp add: contains_sublist)

lemma lower_Nil [simp]: "lower [] = []"
  by (simp add: lower_def)

lemma length_lower [simp]: "length (lower s) = length s"
  by (simp add: lower_def)

lemma lower_append [simp]: "lower (xs @ ys) = lower xs @ lower ys"
  by (simp add: lower_def)

lemma contains_lower_mono:
  "contains p s \<Longrightarrow> contains (lower p) (lower s)"
  unfolding contains_sublist lower_def sublist_def
  by (metis map_append)

lemma truthy_str_Cons [simp]: "truthy_str (c # cs)"
  by (simp add: truthy_str_def)

lemma truthy_str_Nil [simp]: "\<not> truthy_str []"
  by (simp add: truthy_str_def)

lemma map_zip_fst: "length xs = length ys \<Longrightarrow> map (\<lambda>x. f (fst x)) (zip xs ys) = map f xs"
  by (induction xs ys rule: list_induct2) auto

lemma map_zip_snd: "length xs = length ys \<Longrightarrow> map (\<lambda>x. f (snd x)) (zip xs ys) = map f ys"
  by (induction xs ys rule: list_induct2) auto

text \<open>Projecting one column out of rows built by nested \<open>zip\<close>s.\<close>

lemmas zip_proj = comp_def split_def map_zip_fst map_zip_snd map_fst_zip map_snd_zip
  map_zip_fst[where f="\<lambda>y. fst (fst y)"] map_zip_fst[where f="\<lambda>y. snd (fst y)"]

lemma map_insort_key:
  "map g (insort_key (\<lambda>x. f (g x)) x xs) = insort_key f (g x) (map g xs)"
  by (induction xs) auto

lemma map_sort_key: "map g (sort_key (\<lambda>x. f (g x)) xs) = sort_key f (map g xs)"
  by (induction xs) (auto simp: map_insort_key)

lemma filter_commute: "filter P (filter Q xs) = filter Q (filter P xs)"
  by (simp add: conj_commute)

lemma filter_idem [simp]: "filter P (filter P xs) = filter P xs"
  by simp

lemma filter_all_id: "(\<And>x. x \<in> set xs \<Longrightarrow> P x) \<Longrightarrow> filter P xs = xs"
  by (simp add: filter_id_conv)

end
