(* ===== verification/Dataset.thy ===== *)
theory Dataset
  imports Prelude
begin

text \<open>
  The data model of \<open>src/dashboard_anggaran.py\<close> and its Static Dataset Provider
  \<open>load_static_data\<close> (lines 111--223): the three tables (categories, departments
  (SKPD), multi-year trend) as lists of records, the \<open>pd.DataFrame(dict)\<close>
  construction with its length check, and the derived column
  \<open>anggaran_miliar = anggaran / 1_000_000_000\<close>. The derived column is modelled as an
  exact rational: the float rounding of Python's division is not modelled.
\<close>

section \<open>Tables\<close>

record kategori_base =
  kat_kode :: string
  kat_kategori :: string
  kat_anggaran :: int

record kategori_row = kategori_base +
  kat_miliar :: rat

record skpd_row =
  kode :: string
  nama_skpd :: string
  kategori :: string
  anggaran :: amount
  anggaran_miliar :: "rat option"

text \<open>
  A department table is a DataFrame: its column names in order (the static and the
  MySQL path produce different orders, which the exports show) and its rows. A row
  field whose column is not in \<open>skpd_cols\<close> is not part of the table.
\<close>

record skpd_frame =
  skpd_cols :: "string list"
  skpd_rows :: "skpd_row list"

record trend_base =
  tahun :: int
  tr_kategori :: string
  tr_anggaran :: int

record trend_row = trend_base +
  tr_miliar :: rat

definition miliar :: "int \<Rightarrow> rat" where
  "miliar a = of_int a / 1000000000"

text \<open>\<open>pd.DataFrame\<close> raises \<open>ValueError\<close> when the columns of the dict differ in length.\<close>

definition length_error :: py_error where
  "length_error = ValueError ''All arrays must be of the same length''"

section \<open>DataFrame construction and the derived column\<close>

definition kategori_frame :: "string list \<Rightarrow> string list \<Rightarrow> int list \<Rightarrow> py_error + kategori_base list" where
  "kategori_frame ks cs as =
     (if length ks = length cs \<and> length cs = length as
      then Inr (map (\<lambda>((k, c), a). \<lparr>kat_kode = k, kat_kategori = c, kat_anggaran = a\<rparr>) (zip (zip ks cs) as))
      else Inl length_error)"

definition skpd_frame_of :: "string list \<Rightarrow> string list \<Rightarrow> string list \<Rightarrow> int list \<Rightarrow> py_error + skpd_frame" where
  "skpd_frame_of ks ns cs as =
     (if length ks = length ns \<and> length ns = length cs \<and> length cs = length as
      then Inr \<lparr>skpd_cols = [''kode'', ''nama_skpd'', ''kategori'', ''anggaran''],
                skpd_rows = map (\<lambda>(((k, n), c), a). \<lparr>kode = k, nama_skpd = n, kategori = c,
                                   anggaran = Some a, anggaran_miliar = None\<rparr>)
                              (zip (zip (zip ks ns) cs) as)\<rparr>
      else Inl length_error)"

definition trend_frame :: "int list \<Rightarrow> string list \<Rightarrow> int list \<Rightarrow> py_error + trend_base list" where
  "trend_frame ys cs as =
     (if length ys = length cs \<and> length cs = length as
      then Inr (map (\<lambda>((y, c), a). \<lparr>tahun = y, tr_kategori = c, tr_anggaran = a\<rparr>) (zip (zip ys cs) as))
      else Inl length_error)"

definition add_kat_miliar :: "kategori_base \<Rightarrow> kategori_row" where
  "add_kat_miliar r = kategori_base.extend r (kategori_row.fields (miliar (kat_anggaran r)))"

definition add_trend_miliar :: "trend_base \<Rightarrow> trend_row" where
  "add_trend_miliar r = trend_base.extend r (trend_row.fields (miliar (tr_anggaran r)))"

text \<open>\<open>df['anggaran_miliar'] = df['anggaran'] / 1_000_000_000\<close>: NaN stays NaN.\<close>

definition add_skpd_miliar :: "skpd_frame \<Rightarrow> skpd_frame" where
  "add_skpd_miliar f =
     \<lparr>skpd_cols = (if ''anggaran_miliar'' \<in> set (skpd_cols f) then skpd_cols f
                   else skpd_cols f @ [''anggaran_miliar'']),
      skpd_rows = map (\<lambda>r. r\<lparr>anggaran_miliar := map_option miliar (anggaran r)\<rparr>) (skpd_rows f)\<rparr>"

section \<open>The static dataset (lines 113--213)\<close>

definition kategori_kode_col :: "string list" where
  "kategori_kode_col = [
     ''UNSUR KEWILAYAHAN'',
     ''UNSUR PEMERINTAHAN UMUM'',
     ''UNSUR PENDUKUNG URUSAN PEMERINTAHAN'',
     ''UNSUR PENGAWASAN URUSAN PEMERINTAHAN'',
     ''UNSUR PENUNJANG URUSAN PEMERINTAHAN'',
     ''URUSAN PEMERINTAHAN PILIHAN'',
     ''URUSAN PEMERINTAHAN WAJIB YANG BERKAITAN DENGAN PELAYANAN DASAR'',
     ''URUSAN PEMERINTAHAN WAJIB YANG TIDAK BERKAITAN DENGAN PELAYANAN DASAR'']"

definition kategori_label_col :: "string list" where
  "kategori_label_col = [
     ''Unsur Kewilayahan'', ''Unsur Pemerintahan Umum'',
     ''Unsur Pendukung'', ''Unsur Pengawasan'',
     ''Unsur Penunjang'', ''Urusan Pilihan'',
     ''Urusan Wajib - Pelayanan Dasar'', ''Urusan Wajib - Non Pelayanan Dasar'']"

definition kategori_anggaran_col :: "int list" where
  "kategori_anggaran_col = [
     22863237930, 2278313362, 34471899685, 7735642420,
     168860731367, 35753724291, 518444580026, 45180777831]"

definition skpd_kode_col :: "string list" where
  "skpd_kode_col = [
     ''7.01.0.00.0.00.01.0000'', ''7.01.0.00.0.00.02.0000'', ''7.01.0.00.0.00.03.0000'',
     ''7.01.0.00.0.00.04.0000'', ''7.01.0.00.0.00.05.0000'', ''7.01.0.00.0.00.06.0000'',
     ''7.01.0.00.0.00.07.0000'', ''8.01.0.00.0.00.01.0000'', ''4.01.2.10.3.29.01.0000'',
     ''4.02.0.00.0.00.01.0000'', ''6.01.0.00.0.00.01.0000'', ''5.01.5.05.0.00.01.0000'',
     ''5.02.0.00.0.00.01.0000'', ''5.03.5.04.0.00.01.0000'', ''3.25.0.00.0.00.01.0000'',
     ''3.26.0.00.0.00.01.0000'', ''3.27.0.00.0.00.01.0000'', ''3.27.0.00.0.00.02.0000'',
     ''3.32.2.07.0.00.02.0000'', ''1.01.2.22.0.00.01.0000'', ''1.02.0.00.0.00.01.0000'',
     ''1.03.0.00.0.00.01.0000'', ''1.04.0.00.0.00.01.0000'', ''1.05.0.00.0.00.01.0000'',
     ''1.05.0.00.0.00.02.0000'', ''1.06.0.00.0.00.01.0000'', ''2.09.0.00.0.00.01.0000'',
     ''2.11.3.28.0.00.01.0000'', ''2.12.0.00.0.00.01.0000'', ''2.13.2.08.0.00.01.0000'',
     ''2.14.0.00.0.00.01.0000'', ''2.15.0.00.0.00.01.0000'', ''2.16.2.20.2.21.01.0000'',
     ''2.18.0.00.0.00.01.0000'', ''2.19.0.00.0.00.01.0000'', ''2.23.2.24.0.00.01.0000'']"

definition skpd_nama_col :: "string list" where
  "skpd_nama_col = [
     ''Kecamatan Aesesa'', ''Kecamatan Boawae'',
     ''Kecamatan Mauponggo'', ''Kecamatan Nangaroro'',
     ''Kecamatan Wolowae'', ''Kecamatan Keo Tengah'',
     ''Kecamatan Aesesa Selatan'', ''Badan Kesatuan Bangsa dan Politik'',
     ''Sekretariat Daerah'', ''Sekretariat DPRD'',
     ''Inspektorat'', ''Badan Perencanaan Pembangunan'',
     ''Badan Keuangan Daerah'', ''Badan Kepegawaian'',
     ''Dinas Kelautan dan Perikanan'', ''Dinas Pariwisata'',
     ''Dinas Pertanian'', ''Dinas Peternakan'',
     ''Dinas Transmigrasi'', ''Dinas Pendidikan dan Kebudayaan'',
     ''Dinas Kesehatan'', ''Dinas Pekerjaan Umum'',
     ''Dinas Perumahan Rakyat'', ''Satuan Polisi Pamong Praja'',
     ''Badan Penanggulangan Bencana'', ''Dinas Sosial'',
     ''Dinas Pangan'', ''Dinas Lingkungan Hidup'',
     ''Dinas Kependudukan dan Pencatatan Sipil'', ''Dinas Pemberdayaan Masyarakat'',
     ''Dinas Pengendalian Penduduk dan KB'', ''Dinas Perhubungan'',
     ''Dinas Komunikasi dan Informatika'', ''Dinas Penanaman Modal'',
     ''Dinas Kepemudaan dan Olahraga'', ''Dinas Perpustakaan'']"

definition skpd_kategori_col :: "string list" where
  "skpd_kategori_col = [
     ''Unsur Kewilayahan'', ''Unsur Kewilayahan'',
     ''Unsur Kewilayahan'', ''Unsur Kewilayahan'',
     ''Unsur Kewilayahan'', ''Unsur Kewilayahan'',
     ''Unsur Kewilayahan'', ''Unsur Pemerintahan Umum'',
     ''Unsur Pendukung'', ''Unsur Pendukung'',
     ''Unsur Pengawasan'', ''Unsur Penunjang'',
     ''Unsur Penunjang'', ''Unsur Penunjang'',
     ''Urusan Pilihan'', ''Urusan Pilihan'',
     ''Urusan Pilihan'', ''Urusan Pilihan'',
     ''Urusan Pilihan'', ''Urusan Wajib - Pelayanan Dasar'',
     ''Urusan Wajib - Pelayanan Dasar'', ''Urusan Wajib - Pelayanan Dasar'',
     ''Urusan Wajib - Pelayanan Dasar'', ''Urusan Wajib - Pelayanan Dasar'',
     ''Urusan Wajib - Pelayanan Dasar'', ''Urusan Wajib - Pelayanan Dasar'',
     ''Urusan Wajib - Non Pelayanan Dasar'', ''Urusan Wajib - Non Pelayanan Dasar'',
     ''Urusan Wajib - Non Pelayanan Dasar'', ''Urusan Wajib - Non Pelayanan Dasar'',
     ''Urusan Wajib - Non Pelayanan Dasar'', ''Urusan Wajib - Non Pelayanan Dasar'',
     ''Urusan Wajib - Non Pelayanan Dasar'', ''Urusan Wajib - Non Pelayanan Dasar'',
     ''Urusan Wajib - Non Pelayanan Dasar'', ''Urusan Wajib - Non Pelayanan Dasar'']"

definition skpd_anggaran_col :: "int list" where
  "skpd_anggaran_col = [
     6223022625, 7646781503, 2530582520, 2508571150, 1193921348, 1458126928,
     1302231856, 2278313362, 16543274276, 17928625409, 7735642420, 4704900714,
     159364654742, 4328449467, 10918488956, 2792771772, 13357727381, 8264620432,
     186996200, 248036170749, 165156847795, 86179490390, 8419273044, 5112252744,
     2337363871, 3203181433, 2422550560, 3499115744, 2769261244, 4060458306,
     5544150797, 4015991096, 2473281891, 3229338292, 2666001411, 3607193869]"

definition trend_tahun_col :: "int list" where
  "trend_tahun_col = [2023, 2023, 2023, 2024, 2024, 2024, 2025, 2025, 2025]"

definition trend_kategori_col :: "string list" where
  "trend_kategori_col = concat (replicate 3 [''Pendidikan'', ''Kesehatan'', ''Infrastruktur''])"
  \<comment> \<open>Python's \<open>[...] * 3\<close>\<close>

definition trend_anggaran_col :: "int list" where
  "trend_anggaran_col = [
     220000000000, 150000000000, 80000000000,
     235000000000, 160000000000, 85000000000,
     248036170749, 165156847795, 86179490390]"

type_synonym tables = "kategori_row list \<times> skpd_frame \<times> trend_row list"

definition load_static_data :: "py_error + tables" where
  "load_static_data =
     (case kategori_frame kategori_kode_col kategori_label_col kategori_anggaran_col of
        Inl e \<Rightarrow> Inl e
      | Inr df_kategori \<Rightarrow>
        (case skpd_frame_of skpd_kode_col skpd_nama_col skpd_kategori_col skpd_anggaran_col of
           Inl e \<Rightarrow> Inl e
         | Inr df_skpd \<Rightarrow>
           (case trend_frame trend_tahun_col trend_kategori_col trend_anggaran_col of
              Inl e \<Rightarrow> Inl e
            | Inr df_trend \<Rightarrow>
                Inr (map add_kat_miliar df_kategori, add_skpd_miliar df_skpd,
                     map add_trend_miliar df_trend))))"

section \<open>The invariant of a department table\<close>

text \<open>
  The derived column is consistent with the amount column on every row, and it is a
  column of the frame: what every path that builds a department table must keep.
\<close>

definition miliar_ok :: "skpd_frame \<Rightarrow> bool" where
  "miliar_ok f \<longleftrightarrow> ''anggaran_miliar'' \<in> set (skpd_cols f) \<and>
     list_all (\<lambda>r. anggaran_miliar r = map_option miliar (anggaran r)) (skpd_rows f)"

text \<open>The tables the static provider returns (it returns \<open>Inr\<close>, as proved below).\<close>

definition static_tables :: tables where
  "static_tables = (case load_static_data of Inr t \<Rightarrow> t | Inl _ \<Rightarrow> undefined)"

section \<open>Facts about construction and the derived column\<close>

lemma kategori_frame_cols:
  "kategori_frame ks cs as = Inr rs \<Longrightarrow>
     map kat_kode rs = ks \<and> map kat_kategori rs = cs \<and> map kat_anggaran rs = as"
  by (auto simp: kategori_frame_def zip_proj split: if_splits)

lemma skpd_frame_of_cols:
  "skpd_frame_of ks ns cs as = Inr f \<Longrightarrow>
     map kode (skpd_rows f) = ks \<and> map nama_skpd (skpd_rows f) = ns \<and>
     map kategori (skpd_rows f) = cs \<and> map anggaran (skpd_rows f) = map Some as \<and>
     skpd_cols f = [''kode'', ''nama_skpd'', ''kategori'', ''anggaran'']"
  by (auto simp: skpd_frame_of_def zip_proj split: if_splits)

lemma skpd_frame_of_pairs:
  "skpd_frame_of ks ns cs as = Inr f \<Longrightarrow> map (\<lambda>r. (kode r, kategori r)) (skpd_rows f) = zip ks cs"
  by (auto simp: skpd_frame_of_def split: if_splits intro!: nth_equalityI)

lemma skpd_frame_of_names:
  "skpd_frame_of ks ns cs as = Inr f \<Longrightarrow>
     map (\<lambda>r. (nama_skpd r, anggaran r)) (skpd_rows f) = zip ns (map Some as)"
  by (auto simp: skpd_frame_of_def split: if_splits intro!: nth_equalityI)

lemma trend_frame_cols:
  "trend_frame ys cs as = Inr rs \<Longrightarrow>
     map tahun rs = ys \<and> map tr_kategori rs = cs \<and> map tr_anggaran rs = as"
  by (auto simp: trend_frame_def zip_proj split: if_splits)

lemma frame_length_error:
  "length ks \<noteq> length cs \<Longrightarrow> kategori_frame ks cs as = Inl length_error"
  "length ks \<noteq> length ns \<Longrightarrow> skpd_frame_of ks ns cs as' = Inl length_error"
  "length ys \<noteq> length cs \<Longrightarrow> trend_frame ys cs as = Inl length_error"
  by (auto simp: kategori_frame_def skpd_frame_of_def trend_frame_def)

lemma add_kat_miliar_fields [simp]:
  "kat_kode (add_kat_miliar r) = kat_kode r"
  "kat_kategori (add_kat_miliar r) = kat_kategori r"
  "kat_anggaran (add_kat_miliar r) = kat_anggaran r"
  "kat_miliar (add_kat_miliar r) = miliar (kat_anggaran r)"
  by (simp_all add: add_kat_miliar_def kategori_base.defs kategori_row.defs)

lemma add_trend_miliar_fields [simp]:
  "tahun (add_trend_miliar r) = tahun r"
  "tr_kategori (add_trend_miliar r) = tr_kategori r"
  "tr_anggaran (add_trend_miliar r) = tr_anggaran r"
  "tr_miliar (add_trend_miliar r) = miliar (tr_anggaran r)"
  by (simp_all add: add_trend_miliar_def trend_base.defs trend_row.defs)

lemma add_skpd_miliar_ok [intro, simp]: "miliar_ok (add_skpd_miliar f)"
  by (simp add: miliar_ok_def add_skpd_miliar_def list_all_iff)

lemma add_skpd_miliar_rows [simp]:
  "map kode (skpd_rows (add_skpd_miliar f)) = map kode (skpd_rows f)"
  "map nama_skpd (skpd_rows (add_skpd_miliar f)) = map nama_skpd (skpd_rows f)"
  "map kategori (skpd_rows (add_skpd_miliar f)) = map kategori (skpd_rows f)"
  "map anggaran (skpd_rows (add_skpd_miliar f)) = map anggaran (skpd_rows f)"
  "length (skpd_rows (add_skpd_miliar f)) = length (skpd_rows f)"
  "map (\<lambda>r. (kode r, kategori r)) (skpd_rows (add_skpd_miliar f)) = map (\<lambda>r. (kode r, kategori r)) (skpd_rows f)"
  "map (\<lambda>r. (nama_skpd r, anggaran r)) (skpd_rows (add_skpd_miliar f)) = map (\<lambda>r. (nama_skpd r, anggaran r)) (skpd_rows f)"
  by (simp_all add: add_skpd_miliar_def)

lemma add_skpd_miliar_cols_static:
  "skpd_cols (add_skpd_miliar \<lparr>skpd_cols = [''kode'', ''nama_skpd'', ''kategori'', ''anggaran''], skpd_rows = rs\<rparr>)
     = [''kode'', ''nama_skpd'', ''kategori'', ''anggaran'', ''anggaran_miliar'']"
  by (simp add: add_skpd_miliar_def)

section \<open>Evaluation of the static columns\<close>

lemma trend_kategori_col_eq [table_simps]:
  "trend_kategori_col = [''Pendidikan'', ''Kesehatan'', ''Infrastruktur'',
     ''Pendidikan'', ''Kesehatan'', ''Infrastruktur'',
     ''Pendidikan'', ''Kesehatan'', ''Infrastruktur'']"
  by (simp add: trend_kategori_col_def numeral_3_eq_3)

lemma static_col_lengths [table_simps]:
  "length kategori_kode_col = 8" "length kategori_label_col = 8"
  "length kategori_anggaran_col = 8"
  "length skpd_kode_col = 36" "length skpd_nama_col = 36"
  "length skpd_kategori_col = 36" "length skpd_anggaran_col = 36"
  "length trend_tahun_col = 9" "length trend_kategori_col = 9"
  "length trend_anggaran_col = 9"
  by (simp_all add: kategori_kode_col_def kategori_label_col_def kategori_anggaran_col_def
      skpd_kode_col_def skpd_nama_col_def skpd_kategori_col_def skpd_anggaran_col_def
      trend_tahun_col_def trend_kategori_col_eq trend_anggaran_col_def)

text \<open>
  The static load, with the literal columns kept folded: the three frames are built,
  and the tables are the frames with the derived column added.
\<close>

lemma static_frames_Inr:
  "\<exists>K. kategori_frame kategori_kode_col kategori_label_col kategori_anggaran_col = Inr K"
  "\<exists>S. skpd_frame_of skpd_kode_col skpd_nama_col skpd_kategori_col skpd_anggaran_col = Inr S"
  "\<exists>T. trend_frame trend_tahun_col trend_kategori_col trend_anggaran_col = Inr T"
  by (simp_all add: kategori_frame_def skpd_frame_of_def trend_frame_def static_col_lengths)

lemma load_static_data_eq:
  obtains K S T where
    "load_static_data = Inr (map add_kat_miliar K, add_skpd_miliar S, map add_trend_miliar T)"
    "kategori_frame kategori_kode_col kategori_label_col kategori_anggaran_col = Inr K"
    "skpd_frame_of skpd_kode_col skpd_nama_col skpd_kategori_col skpd_anggaran_col = Inr S"
    "trend_frame trend_tahun_col trend_kategori_col trend_anggaran_col = Inr T"
proof -
  obtain K S T where
    K: "kategori_frame kategori_kode_col kategori_label_col kategori_anggaran_col = Inr K" and
    S: "skpd_frame_of skpd_kode_col skpd_nama_col skpd_kategori_col skpd_anggaran_col = Inr S" and
    T: "trend_frame trend_tahun_col trend_kategori_col trend_anggaran_col = Inr T"
    using static_frames_Inr by blast
  then have "load_static_data = Inr (map add_kat_miliar K, add_skpd_miliar S, map add_trend_miliar T)"
    by (simp add: load_static_data_def)
  from this K S T show thesis by (rule that)
qed

lemma load_static_data_static_tables: "load_static_data = Inr static_tables"
proof -
  obtain t where "load_static_data = Inr t"
    by (rule load_static_data_eq) blast
  then show ?thesis unfolding static_tables_def by (metis sum.simps(6))
qed

lemma static_tables_eq:
  obtains K S T where
    "static_tables = (map add_kat_miliar K, add_skpd_miliar S, map add_trend_miliar T)"
    "kategori_frame kategori_kode_col kategori_label_col kategori_anggaran_col = Inr K"
    "skpd_frame_of skpd_kode_col skpd_nama_col skpd_kategori_col skpd_anggaran_col = Inr S"
    "trend_frame trend_tahun_col trend_kategori_col trend_anggaran_col = Inr T"
proof -
  obtain K S T where eq: "load_static_data = Inr (map add_kat_miliar K, add_skpd_miliar S, map add_trend_miliar T)"
    and K: "kategori_frame kategori_kode_col kategori_label_col kategori_anggaran_col = Inr K"
    and S: "skpd_frame_of skpd_kode_col skpd_nama_col skpd_kategori_col skpd_anggaran_col = Inr S"
    and T: "trend_frame trend_tahun_col trend_kategori_col trend_anggaran_col = Inr T"
    by (rule load_static_data_eq)
  from eq have "static_tables = (map add_kat_miliar K, add_skpd_miliar S, map add_trend_miliar T)"
    by (metis load_static_data_static_tables sum.inject(2))
  from this K S T show thesis by (rule that)
qed

text \<open>The columns of the static tables, as the literal columns of the source.\<close>

lemma static_tables_columns [table_simps]:
  "map kat_anggaran (fst static_tables) = kategori_anggaran_col"
  "map kat_kategori (fst static_tables) = kategori_label_col"
  "map (\<lambda>r. (nama_skpd r, anggaran r)) (skpd_rows (fst (snd static_tables))) =
     zip skpd_nama_col (map Some skpd_anggaran_col)"
  "map anggaran (skpd_rows (fst (snd static_tables))) = map Some skpd_anggaran_col"
  "map (\<lambda>r. (kode r, kategori r)) (skpd_rows (fst (snd static_tables))) = zip skpd_kode_col skpd_kategori_col"
proof -
  obtain K S T where st: "static_tables = (map add_kat_miliar K, add_skpd_miliar S, map add_trend_miliar T)"
    and K: "kategori_frame kategori_kode_col kategori_label_col kategori_anggaran_col = Inr K"
    and S: "skpd_frame_of skpd_kode_col skpd_nama_col skpd_kategori_col skpd_anggaran_col = Inr S"
    by (rule static_tables_eq)
  show "map kat_anggaran (fst static_tables) = kategori_anggaran_col"
    "map kat_kategori (fst static_tables) = kategori_label_col"
    unfolding st using kategori_frame_cols [OF K] by (simp_all add: comp_def)
  show "map (\<lambda>r. (nama_skpd r, anggaran r)) (skpd_rows (fst (snd static_tables))) =
     zip skpd_nama_col (map Some skpd_anggaran_col)"
    unfolding st using skpd_frame_of_names [OF S] by simp
  show "map anggaran (skpd_rows (fst (snd static_tables))) = map Some skpd_anggaran_col"
    unfolding st using skpd_frame_of_cols [OF S] by simp
  show "map (\<lambda>r. (kode r, kategori r)) (skpd_rows (fst (snd static_tables))) = zip skpd_kode_col skpd_kategori_col"
    unfolding st using skpd_frame_of_pairs [OF S] by simp
qed

lemma static_columns_ok [table_simps]:
  "distinct kategori_kode_col" "distinct kategori_label_col" "distinct skpd_kode_col"
  "set skpd_kategori_col \<subseteq> set kategori_label_col"
  by (simp_all add: kategori_kode_col_def kategori_label_col_def skpd_kode_col_def
      skpd_kategori_col_def)

section \<open>Properties of the static dataset\<close>

text \<open>C38: the static provider succeeds and returns 8 category rows, 36 department
  rows (the spec says 35) and 9 trend rows, with the department columns in the
  order the code creates them.\<close>

theorem static_tables_shape:
  "\<exists>k s t. load_static_data = Inr (k, s, t) \<and> length k = 8 \<and> length (skpd_rows s) = 36 \<and>
     length t = 9 \<and>
     skpd_cols s = [''kode'', ''nama_skpd'', ''kategori'', ''anggaran'', ''anggaran_miliar'']"
proof -
  obtain K S T where eq: "load_static_data = Inr (map add_kat_miliar K, add_skpd_miliar S, map add_trend_miliar T)"
    and K: "kategori_frame kategori_kode_col kategori_label_col kategori_anggaran_col = Inr K"
    and S: "skpd_frame_of skpd_kode_col skpd_nama_col skpd_kategori_col skpd_anggaran_col = Inr S"
    and T: "trend_frame trend_tahun_col trend_kategori_col trend_anggaran_col = Inr T"
    by (rule load_static_data_eq)
  from kategori_frame_cols [OF K] have "length K = 8"
    by (metis length_map static_col_lengths(1))
  moreover from skpd_frame_of_cols [OF S] have "length (skpd_rows S) = 36"
    by (metis length_map static_col_lengths(4))
  moreover from trend_frame_cols [OF T] have "length T = 9"
    by (metis length_map static_col_lengths(8))
  moreover from skpd_frame_of_cols [OF S] have
    "skpd_cols (add_skpd_miliar S) = [''kode'', ''nama_skpd'', ''kategori'', ''anggaran'', ''anggaran_miliar'']"
    by (simp add: add_skpd_miliar_def)
  ultimately show ?thesis
    apply (intro exI[of _ "map add_kat_miliar K"] exI[of _ "add_skpd_miliar S"] exI[of _ "map add_trend_miliar T"])
    apply (simp add: eq)
    done
qed

text \<open>C39: the static tables satisfy the data model's invariants: category codes and
  labels are unique, department codes are unique, every department's category is one
  of the category table's labels, and every derived billions value is the amount
  divided by \<open>10^9\<close>.\<close>

theorem static_tables_wellformed:
  "\<exists>k s t. load_static_data = Inr (k, s, t) \<and>
     distinct (map kat_kode k) \<and> distinct (map kat_kategori k) \<and>
     distinct (map kode (skpd_rows s)) \<and>
     set (map kategori (skpd_rows s)) \<subseteq> set (map kat_kategori k) \<and>
     miliar_ok s \<and> list_all (\<lambda>r. kat_miliar r = miliar (kat_anggaran r)) k \<and>
     list_all (\<lambda>r. tr_miliar r = miliar (tr_anggaran r)) t"
proof -
  obtain K S T where eq: "load_static_data = Inr (map add_kat_miliar K, add_skpd_miliar S, map add_trend_miliar T)"
    and K: "kategori_frame kategori_kode_col kategori_label_col kategori_anggaran_col = Inr K"
    and S: "skpd_frame_of skpd_kode_col skpd_nama_col skpd_kategori_col skpd_anggaran_col = Inr S"
    by (rule load_static_data_eq)
  from kategori_frame_cols [OF K] skpd_frame_of_cols [OF S] static_columns_ok
  have "distinct (map kat_kode (map add_kat_miliar K)) \<and> distinct (map kat_kategori (map add_kat_miliar K)) \<and>
     distinct (map kode (skpd_rows (add_skpd_miliar S))) \<and>
     set (map kategori (skpd_rows (add_skpd_miliar S))) \<subseteq> set (map kat_kategori (map add_kat_miliar K))"
    by (simp add: comp_def)
  then show ?thesis
    apply (intro exI[of _ "map add_kat_miliar K"] exI[of _ "add_skpd_miliar S"] exI[of _ "map add_trend_miliar T"])
    apply (simp add: eq list_all_iff)
    done
qed

end
