(* ===== verification/Normalize.thy ===== *)
theory Normalize
  imports Dataset
begin

text \<open>
  The Normalizer of \<open>src/dashboard_anggaran.py\<close>: the coercion
  \<open>pd.to_numeric(df['anggaran'], errors='coerce')\<close> of the loader (line 103), and the
  lines 233--241 that turn the rows read from MySQL into a department table: the
  derived billions column first, then the category of each row from the prefix of its
  code. The rows come from \<open>SELECT kode_wilayah AS kode, nama_skpd, anggaran\<close>, whose
  \<open>WHERE\<close> clause excludes a NULL or empty name but not a NULL code, so a code is a
  \<open>string option\<close>; \<open>x.startswith\<close> on a NULL code raises \<open>AttributeError\<close>, which
  no \<open>try\<close> around these lines catches.
\<close>

section \<open>Values read from MySQL\<close>

datatype sql_value = SqlNull | SqlInt int | SqlText string

record raw_row =
  raw_kode :: "string option"
  raw_nama :: string
  raw_anggaran :: sql_value

text \<open>The frame returned by \<open>load_data_from_mysql\<close>: columns \<open>kode\<close>, \<open>nama_skpd\<close>,
  \<open>anggaran\<close>, the last one already coerced.\<close>

record ext_row =
  ext_kode :: "string option"
  ext_nama :: string
  ext_anggaran :: amount

section \<open>Numeric coercion\<close>

definition is_digit :: "char \<Rightarrow> bool" where
  "is_digit c \<longleftrightarrow> (48::nat) \<le> of_char c \<and> (of_char c :: nat) \<le> 57"

fun digits_value :: "nat \<Rightarrow> string \<Rightarrow> nat option" where
  "digits_value acc [] = Some acc"
| "digits_value acc (c # cs) =
     (if is_digit c then digits_value (10 * acc + (of_char c - 48)) cs else None)"

text \<open>
  The text form of an integer that \<open>to_numeric\<close> accepts: an optional sign and at least
  one decimal digit. Anything else is coerced to NaN (\<open>None\<close>).
\<close>

fun parse_int :: "string \<Rightarrow> int option" where
  "parse_int [] = None"
| "parse_int (c # cs) =
     (if c = CHR ''-'' then (if cs = [] then None else map_option (\<lambda>n. - int n) (digits_value 0 cs))
      else if c = CHR ''+'' then (if cs = [] then None else map_option int (digits_value 0 cs))
      else map_option int (digits_value 0 (c # cs)))"

definition to_numeric_coerce :: "sql_value \<Rightarrow> amount" where
  "to_numeric_coerce v =
     (case v of SqlNull \<Rightarrow> None | SqlInt n \<Rightarrow> Some n | SqlText s \<Rightarrow> parse_int s)"

definition coerce_frame :: "raw_row list \<Rightarrow> ext_row list" where
  "coerce_frame rs =
     map (\<lambda>r. \<lparr>ext_kode = raw_kode r, ext_nama = raw_nama r,
               ext_anggaran = to_numeric_coerce (raw_anggaran r)\<rparr>) rs"

section \<open>Category from the code prefix (lines 236--241)\<close>

definition kategori_of_kode :: "string \<Rightarrow> string" where
  "kategori_of_kode x =
     (if starts_with ''1.'' x then ''Urusan Wajib - Pelayanan Dasar''
      else if starts_with ''3.'' x then ''Urusan Pilihan''
      else if starts_with ''7.'' x then ''Unsur Kewilayahan''
      else ''Lainnya'')"

definition none_startswith :: py_error where
  "none_startswith = AttributeError ''NoneType object has no attribute startswith''"

text \<open>\<open>Series.apply\<close> runs the lambda row by row and propagates its exception.\<close>

fun apply_kategori :: "string option list \<Rightarrow> py_error + string list" where
  "apply_kategori [] = Inr []"
| "apply_kategori (None # xs) = Inl none_startswith"
| "apply_kategori (Some x # xs) =
     (case apply_kategori xs of Inl e \<Rightarrow> Inl e | Inr ks \<Rightarrow> Inr (kategori_of_kode x # ks))"

text \<open>
  Lines 234--241 on the loaded frame: first the billions column, then the category
  column; the resulting column order is the one the exports show.
\<close>

definition normalize_external :: "ext_row list \<Rightarrow> py_error + skpd_frame" where
  "normalize_external rs =
     (case apply_kategori (map ext_kode rs) of
        Inl e \<Rightarrow> Inl e
      | Inr ks \<Rightarrow>
          Inr \<lparr>skpd_cols = [''kode'', ''nama_skpd'', ''anggaran'', ''anggaran_miliar'', ''kategori''],
               skpd_rows = map (\<lambda>(r, k). \<lparr>kode = the (ext_kode r), nama_skpd = ext_nama r,
                                  kategori = k, anggaran = ext_anggaran r,
                                  anggaran_miliar = map_option miliar (ext_anggaran r)\<rparr>)
                             (zip rs ks)\<rparr>)"

definition ext_to_skpd :: "ext_row \<Rightarrow> skpd_row" where
  "ext_to_skpd r = \<lparr>kode = the (ext_kode r), nama_skpd = ext_nama r,
     kategori = kategori_of_kode (the (ext_kode r)), anggaran = ext_anggaran r,
     anggaran_miliar = map_option miliar (ext_anggaran r)\<rparr>"

text \<open>
  Python's \<open>str\<close> of an integer, the text a \<open>VARCHAR\<close> amount column holds when it
  was written from an integer: the decimal digits, with a leading minus sign.
\<close>

definition digit_char :: "nat \<Rightarrow> char" where
  "digit_char d = char_of (48 + d)"

fun nat_digits :: "nat \<Rightarrow> string" where
  "nat_digits n = (if n < 10 then [digit_char n] else nat_digits (n div 10) @ [digit_char (n mod 10)])"

definition int_text :: "int \<Rightarrow> string" where
  "int_text i = (if i < 0 then CHR ''-'' # nat_digits (nat (- i)) else nat_digits (nat i))"

declare nat_digits.simps [simp del]

section \<open>The category rule\<close>

lemma apply_kategori_eq:
  "apply_kategori xs =
     (if None \<in> set xs then Inl none_startswith else Inr (map (\<lambda>x. kategori_of_kode (the x)) xs))"
  by (induction xs rule: apply_kategori.induct) auto

lemma kategori_of_kode_range:
  "kategori_of_kode x \<in> {''Urusan Wajib - Pelayanan Dasar'', ''Urusan Pilihan'', ''Unsur Kewilayahan'', ''Lainnya''}"
  by (simp add: kategori_of_kode_def)

text \<open>The prefix rule on the spec's example code, and on a code none of the three
  prefixes matches.\<close>

theorem kategori_of_kode_examples:
  "kategori_of_kode ''1.01.2.22.0.00.01.0000'' = ''Urusan Wajib - Pelayanan Dasar'' \<and>
   kategori_of_kode ''3.25.0.00.0.00.01.0000'' = ''Urusan Pilihan'' \<and>
   kategori_of_kode ''7.01.0.00.0.00.01.0000'' = ''Unsur Kewilayahan'' \<and>
   kategori_of_kode ''2.09.0.00.0.00.01.0000'' = ''Lainnya'' \<and>
   kategori_of_kode ''10.1'' = ''Lainnya''"
  by (simp add: kategori_of_kode_def)

text \<open>C30: classification drift. On the static department table, the prefix rule gives
  a row its curated category exactly when the code starts with \<open>1.\<close>, \<open>3.\<close> or
  \<open>7.\<close>; it misclassifies 17 of the 36 rows (all into \<open>Lainnya\<close>, a label that is
  not one of the eight categories).\<close>

theorem prefix_rule_drift:
  "\<exists>k s t. load_static_data = Inr (k, s, t) \<and>
     list_all (\<lambda>r. (kategori_of_kode (kode r) = kategori r) \<longleftrightarrow>
        (starts_with ''1.'' (kode r) \<or> starts_with ''3.'' (kode r) \<or> starts_with ''7.'' (kode r)))
       (skpd_rows s) \<and>
     length (filter (\<lambda>r. kategori_of_kode (kode r) \<noteq> kategori r) (skpd_rows s)) = 17 \<and>
     list_all (\<lambda>r. kategori_of_kode (kode r) = kategori r \<or> kategori_of_kode (kode r) = ''Lainnya'')
       (skpd_rows s) \<and>
     ''Lainnya'' \<notin> set (map kat_kategori k)"
proof -
  obtain K S T where eq: "load_static_data = Inr (map add_kat_miliar K, add_skpd_miliar S, map add_trend_miliar T)"
    and K: "kategori_frame kategori_kode_col kategori_label_col kategori_anggaran_col = Inr K"
    and S: "skpd_frame_of skpd_kode_col skpd_nama_col skpd_kategori_col skpd_anggaran_col = Inr S"
    by (rule load_static_data_eq)
  let ?rs = "skpd_rows (add_skpd_miliar S)"
  have pairs: "map (\<lambda>r. (kode r, kategori r)) ?rs = zip skpd_kode_col skpd_kategori_col"
    using skpd_frame_of_pairs [OF S] by simp
  have labels: "kat_kategori ` set K = set kategori_label_col"
    using kategori_frame_cols [OF K] by (metis set_map)
  have "list_all (\<lambda>(x, c). ((kategori_of_kode x = c) \<longleftrightarrow>
          (starts_with ''1.'' x \<or> starts_with ''3.'' x \<or> starts_with ''7.'' x)) \<and>
          (kategori_of_kode x = c \<or> kategori_of_kode x = ''Lainnya''))
        (zip skpd_kode_col skpd_kategori_col)"
    by (simp add: skpd_kode_col_def skpd_kategori_col_def kategori_label_col_def kategori_of_kode_def)
  moreover have "length (filter (\<lambda>(x, c). kategori_of_kode x \<noteq> c) (zip skpd_kode_col skpd_kategori_col)) = 17"
    by (simp add: skpd_kode_col_def skpd_kategori_col_def kategori_of_kode_def)
  moreover have "''Lainnya'' \<notin> set kategori_label_col"
    by (simp add: kategori_label_col_def)
  ultimately have all:
    "list_all (\<lambda>r. ((kategori_of_kode (kode r) = kategori r) \<longleftrightarrow>
        (starts_with ''1.'' (kode r) \<or> starts_with ''3.'' (kode r) \<or> starts_with ''7.'' (kode r))) \<and>
        (kategori_of_kode (kode r) = kategori r \<or> kategori_of_kode (kode r) = ''Lainnya'')) ?rs"
    and count: "length (filter (\<lambda>r. kategori_of_kode (kode r) \<noteq> kategori r) ?rs) = 17"
    and lainnya: "''Lainnya'' \<notin> set kategori_label_col"
    unfolding pairs [symmetric] by (simp_all add: list.pred_map comp_def filter_map add_skpd_miliar_def)
  from all have A: "list_all (\<lambda>r. (kategori_of_kode (kode r) = kategori r) \<longleftrightarrow>
        (starts_with ''1.'' (kode r) \<or> starts_with ''3.'' (kode r) \<or> starts_with ''7.'' (kode r))) ?rs"
    and B: "list_all (\<lambda>r. kategori_of_kode (kode r) = kategori r \<or> kategori_of_kode (kode r) = ''Lainnya'') ?rs"
    by (simp_all only: list_all_iff) blast+
  from lainnya labels have D: "''Lainnya'' \<notin> set (map kat_kategori (map add_kat_miliar K))"
    by simp
  show ?thesis
    by (intro exI[of _ "map add_kat_miliar K"] exI[of _ "add_skpd_miliar S"] exI[of _ "map add_trend_miliar T"] conjI)
      (fact eq, fact A, fact count, fact B, fact D)
qed

section \<open>Normalizing the external rows\<close>

lemma zip_map_self: "zip xs (map f xs) = map (\<lambda>x. (x, f x)) xs"
  by (induction xs) auto

lemma normalize_external_eq:
  "normalize_external rs =
     (if None \<in> ext_kode ` set rs then Inl none_startswith
      else Inr \<lparr>skpd_cols = [''kode'', ''nama_skpd'', ''anggaran'', ''anggaran_miliar'', ''kategori''],
                skpd_rows = map ext_to_skpd rs\<rparr>)"
  by (simp add: normalize_external_def apply_kategori_eq zip_map_self comp_def ext_to_skpd_def)

text \<open>C28: when every row read from MySQL has a code, normalization keeps every row (none
  is dropped, NaN amounts included), keeps code, name and amount, gives each row the
  category of its code's prefix, and produces a consistent billions column.\<close>

theorem normalize_external_ok:
  assumes "list_all (\<lambda>r. ext_kode r \<noteq> None) rs"
  shows "\<exists>f. normalize_external rs = Inr f \<and>
     map (\<lambda>r. Some (kode r)) (skpd_rows f) = map ext_kode rs \<and>
     map nama_skpd (skpd_rows f) = map ext_nama rs \<and>
     map anggaran (skpd_rows f) = map ext_anggaran rs \<and>
     map kategori (skpd_rows f) = map (\<lambda>r. kategori_of_kode (the (ext_kode r))) rs \<and>
     miliar_ok f"
proof -
  from assms have none: "None \<notin> ext_kode ` set rs" by (auto simp: list_all_iff)
  from assms have "\<forall>x\<in>set rs. Some (the (ext_kode x)) = ext_kode x" by (auto simp: list_all_iff)
  with none show ?thesis
    by (simp add: normalize_external_eq miliar_ok_def list_all_iff ext_to_skpd_def)
qed

theorem normalize_external_ok_witness:
  "\<exists>f. normalize_external [\<lparr>ext_kode = Some ''1.01.2.22.0.00.01.0000'', ext_nama = ''Dinas Kesehatan'',
        ext_anggaran = Some 165156847795\<rparr>] = Inr f \<and>
     map kategori (skpd_rows f) = [''Urusan Wajib - Pelayanan Dasar''] \<and> miliar_ok f"
  using normalize_external_ok [of "[\<lparr>ext_kode = Some ''1.01.2.22.0.00.01.0000'', ext_nama = ''Dinas Kesehatan'',
        ext_anggaran = Some 165156847795\<rparr>]"]
  by (auto simp: kategori_of_kode_def)

text \<open>C29: a NULL \<open>kode_wilayah\<close> in any row makes line 236 raise
  \<open>AttributeError\<close>, which nothing catches.\<close>

theorem normalize_external_null_kode:
  "None \<in> ext_kode ` set rs \<Longrightarrow> normalize_external rs = Inl none_startswith"
  by (simp add: normalize_external_eq)

theorem normalize_external_null_kode_witness:
  "normalize_external [\<lparr>ext_kode = Some ''3.25'', ext_nama = ''Dinas Pariwisata'', ext_anggaran = Some 1\<rparr>,
     \<lparr>ext_kode = None, ext_nama = ''Dinas Pertanian'', ext_anggaran = None\<rparr>] = Inl none_startswith"
  using normalize_external_null_kode [of "[\<lparr>ext_kode = Some ''3.25'', ext_nama = ''Dinas Pariwisata'', ext_anggaran = Some 1\<rparr>,
     \<lparr>ext_kode = None, ext_nama = ''Dinas Pertanian'', ext_anggaran = None\<rparr>]"]
  by simp

section \<open>Numeric coercion\<close>

lemma coerce_frame_rows:
  "length (coerce_frame rs) = length rs"
  "map ext_kode (coerce_frame rs) = map raw_kode rs"
  "map ext_nama (coerce_frame rs) = map raw_nama rs"
  "map ext_anggaran (coerce_frame rs) = map (\<lambda>r. to_numeric_coerce (raw_anggaran r)) rs"
  by (simp_all add: coerce_frame_def)

lemma of_char_digit_char: "d < 10 \<Longrightarrow> of_char (digit_char d) = 48 + d"
  by (simp add: digit_char_def)

lemma is_digit_digit_char: "d < 10 \<Longrightarrow> is_digit (digit_char d)"
  by (simp add: is_digit_def of_char_digit_char)

lemma digit_char_simps [simp]:
  "digit_char 0 = CHR ''0''" "digit_char 1 = CHR ''1''" "digit_char (Suc 0) = CHR ''1''" "digit_char 2 = CHR ''2''"
  "digit_char 3 = CHR ''3''" "digit_char 4 = CHR ''4''" "digit_char 5 = CHR ''5''"
  "digit_char 6 = CHR ''6''" "digit_char 7 = CHR ''7''" "digit_char 8 = CHR ''8''"
  "digit_char 9 = CHR ''9''"
  by (unfold digit_char_def; code_simp)+

text \<open>\<open>nat_digits\<close> on a numeral, by conditional rewriting.\<close>

lemma nat_digits_small: "n < 10 \<Longrightarrow> nat_digits n = [digit_char n]"
  by (simp add: nat_digits.simps [of n])

lemma nat_digits_big: "\<not> n < 10 \<Longrightarrow> nat_digits n = nat_digits (n div 10) @ [digit_char (n mod 10)]"
  by (simp add: nat_digits.simps [of n])

lemmas nat_digits_eval = nat_digits_small nat_digits_big

lemma digits_value_append:
  "digits_value acc (xs @ ys) = (case digits_value acc xs of None \<Rightarrow> None | Some a \<Rightarrow> digits_value a ys)"
  by (induction acc xs rule: digits_value.induct) auto

lemma digits_value_nat_digits:
  "digits_value acc (nat_digits n) = Some (acc * 10 ^ length (nat_digits n) + n)"
proof (induction n arbitrary: acc rule: nat_digits.induct)
  case (1 n)
  show ?case
  proof (cases "n < 10")
    case True
    then show ?thesis
      by (simp add: nat_digits.simps [of n] is_digit_digit_char of_char_digit_char)
  next
    case False
    have m: "n mod 10 < 10" by simp
    have "10 * (acc * 10 ^ length (nat_digits (n div 10)) + n div 10) + n mod 10
          = acc * 10 ^ Suc (length (nat_digits (n div 10))) + n"
      by simp
    with False "1.IH" m show ?thesis
      by (simp add: nat_digits.simps [of n] digits_value_append is_digit_digit_char of_char_digit_char)
  qed
qed

lemma nat_digits_digits: "c \<in> set (nat_digits n) \<Longrightarrow> is_digit c"
proof (induction n rule: nat_digits.induct)
  case (1 n)
  then show ?case
    by (cases "n < 10") (auto simp: nat_digits.simps [of n] is_digit_digit_char)
qed

lemma nat_digits_Cons: "\<exists>c cs. nat_digits n = c # cs \<and> is_digit c"
proof -
  have "nat_digits n \<noteq> []"
    by (simp add: nat_digits.simps [of n])
  then obtain c cs where "nat_digits n = c # cs" by (cases "nat_digits n") auto
  moreover from this have "is_digit c" by (metis list.set_intros(1) nat_digits_digits)
  ultimately show ?thesis by blast
qed

lemma sign_not_digit: "\<not> is_digit CHR ''-''" "\<not> is_digit CHR ''+''"
  by (simp_all add: is_digit_def)

text \<open>C31: coercion round trip: an amount stored as the decimal text of an integer is
  read back as that integer, not as NaN.\<close>

theorem to_numeric_text_roundtrip: "to_numeric_coerce (SqlText (int_text i)) = Some i"
proof (cases "i < 0")
  case True
  obtain c cs where "nat_digits (nat (- i)) = c # cs" using nat_digits_Cons by blast
  with True digits_value_nat_digits [of 0 "nat (- i)"] show ?thesis
    by (simp add: to_numeric_coerce_def int_text_def)
next
  case False
  obtain c cs where cs: "nat_digits (nat i) = c # cs" and "is_digit c" using nat_digits_Cons by blast
  then have "c \<noteq> CHR ''-''" "c \<noteq> CHR ''+''" using sign_not_digit by auto
  with False cs digits_value_nat_digits [of 0 "nat i"] show ?thesis
    by (simp add: to_numeric_coerce_def int_text_def)
qed

text \<open>What the non-strict coercion does with values that are not integers: NULL,
  an empty text, a text with a non-digit, a lone sign all become NaN, so the row is
  kept with a missing amount.\<close>

theorem to_numeric_coerce_nan:
  "to_numeric_coerce SqlNull = None \<and> to_numeric_coerce (SqlText []) = None \<and>
   to_numeric_coerce (SqlText ''12a'') = None \<and> to_numeric_coerce (SqlText ''-'') = None \<and>
   to_numeric_coerce (SqlText ''-120'') = Some (-120) \<and> to_numeric_coerce (SqlInt 7) = Some 7"
  by (simp add: to_numeric_coerce_def is_digit_def)

end
