(* ===== verification/Source.thy ===== *)
theory Source
  imports Normalize
begin

text \<open>
  Source selection, the MySQL connection, the cached loader and the
  load-or-fallback pipeline of \<open>src/dashboard_anggaran.py\<close> (lines 45--107 and
  226--252). The MySQL server is the environment: a record of two functions giving the
  outcome of \<open>mysql.connector.connect\<close> and of \<open>pd.read_sql\<close>. Every effect the
  code has on the outside (opening, querying and closing a connection, the
  \<open>st.error\<close>/\<open>st.success\<close>/\<open>st.warning\<close> notices) is an event of an explicit trace,
  in the order the code performs it. The memo of \<open>@st.cache_data(ttl=300)\<close> is
  explicit state carried from one script run to the next.
\<close>

section \<open>Configuration and source selection\<close>

record db_config =
  use_db :: bool
  db_host :: string
  db_port :: int
  db_user :: string
  db_password :: string
  db_name :: string

datatype mode = External | Static

text \<open>Line 227: \<open>use_db and all([db_host, db_user, db_password, db_name])\<close>; the port
  comes from a \<open>number_input\<close> bounded to 1..65535 and is not tested.\<close>

definition select_source :: "db_config \<Rightarrow> mode" where
  "select_source c =
     (if use_db c \<and> list_all truthy_str [db_host c, db_user c, db_password c, db_name c]
      then External else Static)"

section \<open>The environment and the trace\<close>

datatype notice = NError string | NSuccess string | NWarning string

datatype io_event =
    Connect nat
  | Query nat
  | Close nat
  | Show notice

text \<open>
  The server: \<open>srv_connect\<close> gives a connection handle or the message of the
  \<open>mysql.connector.Error\<close>; \<open>srv_query\<close> gives the rows of the fixed query on a
  handle or the message of the exception \<open>pd.read_sql\<close> raised.
\<close>

record db_server =
  srv_connect :: "db_config \<Rightarrow> string + nat"
  srv_query :: "nat \<Rightarrow> string + raw_row list"

section \<open>Connection and loader (lines 74--107)\<close>

definition get_mysql_connection :: "db_server \<Rightarrow> db_config \<Rightarrow> nat option \<times> io_event list" where
  "get_mysql_connection srv c =
     (case srv_connect srv c of
        Inl e \<Rightarrow> (None, [Show (NError (''Error connecting to MySQL: '' @ e))])
      | Inr h \<Rightarrow> (Some h, [Connect h]))"

text \<open>The body of \<open>load_data_from_mysql\<close>: the query, the coercion, and the
  \<open>except\<close> branch that reports and returns \<open>None\<close>.\<close>

definition load_data_from_mysql :: "db_server \<Rightarrow> nat \<Rightarrow> ext_row list option \<times> io_event list" where
  "load_data_from_mysql srv h =
     (case srv_query srv h of
        Inl e \<Rightarrow> (None, [Query h, Show (NError (''Error loading data from MySQL: '' @ e))])
      | Inr rows \<Rightarrow> (Some (coerce_frame rows), [Query h]))"

text \<open>
  The memo of \<open>@st.cache_data(ttl=300)\<close>. The only parameter, \<open>_connection\<close>, is
  excluded from the key by its leading underscore, so the function has a single
  entry: the time it was stored, the value returned (\<open>None\<close> included) and the
  notices the call showed, which a hit replays. An entry stored at \<open>t\<close> is served
  while \<open>now < t + 300\<close>.
\<close>

type_synonym load_cache = "(int \<times> ext_row list option \<times> notice list) option"

definition cache_ttl :: int where
  "cache_ttl = 300"

definition cache_fresh :: "int \<Rightarrow> int \<Rightarrow> bool" where
  "cache_fresh t now \<longleftrightarrow> now < t + cache_ttl"

fun shown :: "io_event list \<Rightarrow> notice list" where
  "shown [] = []"
| "shown (Show n # es) = n # shown es"
| "shown (_ # es) = shown es"

definition load_data_cached ::
  "db_server \<Rightarrow> nat \<Rightarrow> load_cache \<Rightarrow> int \<Rightarrow> ext_row list option \<times> io_event list \<times> load_cache" where
  "load_data_cached srv h cache now =
     (case cache of
        Some (t, v, ns) \<Rightarrow>
          if cache_fresh t now then (v, map Show ns, cache)
          else (case load_data_from_mysql srv h of
                  (v', es) \<Rightarrow> (v', es, Some (now, v', shown es)))
      | None \<Rightarrow>
          (case load_data_from_mysql srv h of
             (v', es) \<Rightarrow> (v', es, Some (now, v', shown es))))"

section \<open>The load-or-fallback pipeline (lines 226--252)\<close>

record resolved =
  outcome :: "py_error + tables"
  events :: "io_event list"
  cache' :: load_cache

definition msg_static :: notice where
  "msg_static = NWarning ''Menggunakan data statis''"

definition msg_mysql :: notice where
  "msg_mysql = NSuccess ''Data dimuat dari MySQL''"

text \<open>
  Lines 233--244 once the loader returned a frame: the normalization (which may raise),
  then the static tables of which the category and trend tables are kept and the
  department table is replaced by the loaded one.
\<close>

definition external_tables :: "ext_row list \<Rightarrow> py_error + tables" where
  "external_tables rows =
     (case normalize_external rows of
        Inl e \<Rightarrow> Inl e
      | Inr df \<Rightarrow>
          (case load_static_data of
             Inl e \<Rightarrow> Inl e
           | Inr (df_kategori, _, df_trend) \<Rightarrow> Inr (df_kategori, df, df_trend)))"

definition resolve_tables :: "db_server \<Rightarrow> db_config \<Rightarrow> load_cache \<Rightarrow> int \<Rightarrow> resolved" where
  "resolve_tables srv c cache now =
     (if select_source c = External then
        (case get_mysql_connection srv c of
           (None, es) \<Rightarrow>
             \<lparr>outcome = load_static_data, events = es @ [Show msg_static], cache' = cache\<rparr>
         | (Some h, es) \<Rightarrow>
             (case load_data_cached srv h cache now of
                (None, es2, cache2) \<Rightarrow>
                  \<lparr>outcome = load_static_data, events = es @ es2 @ [Close h, Show msg_static],
                   cache' = cache2\<rparr>
              | (Some rows, es2, cache2) \<Rightarrow>
                  (case external_tables rows of
                     Inl e \<Rightarrow> \<lparr>outcome = Inl e, events = es @ es2 @ [Close h], cache' = cache2\<rparr>
                   | Inr t \<Rightarrow> \<lparr>outcome = Inr t, events = es @ es2 @ [Close h, Show msg_mysql],
                               cache' = cache2\<rparr>)))
      else \<lparr>outcome = load_static_data, events = [], cache' = cache\<rparr>)"

section \<open>The connection test button (lines 54--67)\<close>

text \<open>\<open>connection.is_connected()\<close> right after a successful \<open>connect\<close> is true.\<close>

definition test_connection :: "db_server \<Rightarrow> db_config \<Rightarrow> io_event list" where
  "test_connection srv c =
     (case srv_connect srv c of
        Inl e \<Rightarrow> [Show (NError (''Koneksi gagal: '' @ e))]
      | Inr h \<Rightarrow> [Connect h, Show (NSuccess ''Koneksi berhasil!''), Close h])"

section \<open>The connection discipline\<close>

text \<open>
  A trace respects the connection discipline when connections are opened one at a time,
  each queried at most once while it is open, and closed before the trace ends: a
  small state machine over the trace whose state is the open handle and whether it
  has been queried.
\<close>

fun conn_ok :: "(nat \<times> bool) option \<Rightarrow> io_event list \<Rightarrow> bool" where
  "conn_ok None [] = True"
| "conn_ok (Some _) [] = False"
| "conn_ok st (Show _ # es) = conn_ok st es"
| "conn_ok None (Connect h # es) = conn_ok (Some (h, False)) es"
| "conn_ok None (Query _ # es) = False"
| "conn_ok None (Close _ # es) = False"
| "conn_ok (Some _) (Connect _ # es) = False"
| "conn_ok (Some (h, q)) (Query h' # es) = (h = h' \<and> \<not> q \<and> conn_ok (Some (h, True)) es)"
| "conn_ok (Some (h, q)) (Close h' # es) = (h = h' \<and> conn_ok None es)"

section \<open>Example environments\<close>

text \<open>Concrete configurations and servers at which the theorems below are applied.\<close>

definition example_config :: db_config where
  "example_config = \<lparr>use_db = True, db_host = ''localhost'', db_port = 3306, db_user = ''root'',
     db_password = ''secret'', db_name = ''anggaran_db''\<rparr>"

definition refused_server :: db_server where
  "refused_server = \<lparr>srv_connect = (\<lambda>_. Inl ''Connection refused''), srv_query = (\<lambda>_. Inl ''not connected'')\<rparr>"

definition failing_query_server :: db_server where
  "failing_query_server = \<lparr>srv_connect = (\<lambda>_. Inr 1),
     srv_query = (\<lambda>_. Inl ''Table anggaran_2025 does not exist'')\<rparr>"

definition rows_server :: "raw_row list \<Rightarrow> db_server" where
  "rows_server rs = \<lparr>srv_connect = (\<lambda>_. Inr 1), srv_query = (\<lambda>_. Inr rs)\<rparr>"

definition example_raw_row :: raw_row where
  "example_raw_row = \<lparr>raw_kode = Some ''1.02.0.00.0.00.01.0000'', raw_nama = ''Dinas Kesehatan'',
     raw_anggaran = SqlInt 165156847795\<rparr>"

section \<open>Facts about the pipeline\<close>

lemma conn_ok_shows [simp]: "conn_ok st (map Show ns @ es) = conn_ok st es"
  by (induction ns) auto

lemma get_mysql_connection_cases:
  "get_mysql_connection srv c = (None, es) \<Longrightarrow> \<exists>e. es = [Show (NError (''Error connecting to MySQL: '' @ e))]"
  "get_mysql_connection srv c = (Some h, es) \<Longrightarrow> es = [Connect h]"
  by (auto simp: get_mysql_connection_def split: sum.splits)

lemma load_data_from_mysql_events:
  "load_data_from_mysql srv h = (v, es) \<Longrightarrow> \<exists>ns. es = Query h # map Show ns"
  by (auto simp: load_data_from_mysql_def split: sum.splits intro: exI[of _ "[_]"] exI[of _ "[]"])

lemma load_data_cached_events:
  "load_data_cached srv h cache now = (v, es, c') \<Longrightarrow> (\<exists>ns. es = map Show ns) \<or> (\<exists>ns. es = Query h # map Show ns)"
  by (auto simp: load_data_cached_def dest: load_data_from_mysql_events split: option.splits if_splits prod.splits)

text \<open>C1: every run of the pipeline respects the connection discipline: a connection is opened at most once, queried at most once while open, and closed before the run ends, on the success, fallback and crash paths alike.\<close>

theorem resolve_conn_ok: "conn_ok None (events (resolve_tables srv c cache now))"
proof (cases "select_source c")
  case External
  show ?thesis
  proof (cases "get_mysql_connection srv c")
    case (Pair ho es)
    show ?thesis
    proof (cases ho)
      case None
      with External Pair show ?thesis
        by (auto simp: resolve_tables_def dest: get_mysql_connection_cases)
    next
      case (Some h)
      with Pair have es: "es = [Connect h]" by (simp add: get_mysql_connection_cases)
      obtain v es2 c2 where L: "load_data_cached srv h cache now = (v, es2, c2)" by (metis prod.exhaust)
      from load_data_cached_events [OF L] obtain ns where
        "es2 = map Show ns \<or> es2 = Query h # map Show ns" by blast
      with External Pair Some es L show ?thesis
        by (auto simp: resolve_tables_def split: option.splits sum.splits)
    qed
  qed
next
  case Static
  then show ?thesis by (simp add: resolve_tables_def)
qed

lemma select_source_Static:
  "select_source c = Static \<longleftrightarrow>
     \<not> use_db c \<or> db_host c = [] \<or> db_user c = [] \<or> db_password c = [] \<or> db_name c = []"
  by (auto simp: select_source_def truthy_str_def)

text \<open>C4: when the database toggle is off or a required connection parameter is empty, the pipeline uses the static dataset, touches no connection, shows no notice and leaves the cache as it was.\<close>

theorem resolve_static_mode:
  assumes "\<not> use_db c \<or> db_host c = [] \<or> db_user c = [] \<or> db_password c = [] \<or> db_name c = []"
  shows "resolve_tables srv c cache now = \<lparr>outcome = Inr static_tables, events = [], cache' = cache\<rparr>"
proof -
  from assms have "select_source c = Static" by (simp add: select_source_Static)
  then show ?thesis by (simp add: resolve_tables_def load_static_data_static_tables)
qed

theorem resolve_static_mode_witness:
  "resolve_tables refused_server (example_config\<lparr>use_db := False\<rparr>) None 0 =
     \<lparr>outcome = Inr static_tables, events = [], cache' = None\<rparr>"
  using resolve_static_mode [of "example_config\<lparr>use_db := False\<rparr>" refused_server None 0]
  by simp

text \<open>C5: a refused connection is reported and the pipeline falls back to the static dataset with a warning, without querying.\<close>

theorem resolve_connect_failure:
  assumes "select_source c = External" and "srv_connect srv c = Inl e"
  shows "resolve_tables srv c cache now =
     \<lparr>outcome = Inr static_tables,
      events = [Show (NError (''Error connecting to MySQL: '' @ e)), Show msg_static], cache' = cache\<rparr>"
  using assms by (simp add: resolve_tables_def get_mysql_connection_def load_static_data_static_tables)

theorem resolve_connect_failure_witness:
  "resolve_tables refused_server example_config None 0 =
     \<lparr>outcome = Inr static_tables,
      events = [Show (NError (''Error connecting to MySQL: Connection refused'')), Show msg_static],
      cache' = None\<rparr>"
  using resolve_connect_failure [of example_config refused_server "''Connection refused''" None 0]
  by (simp add: example_config_def select_source_def refused_server_def)

lemma load_data_cached_hit:
  "cache_fresh t now \<Longrightarrow> load_data_cached srv h (Some (t, v, ns)) now = (v, map Show ns, Some (t, v, ns))"
  by (simp add: load_data_cached_def)

lemma load_data_cached_miss:
  "cache = None \<or> (\<exists>t v ns. cache = Some (t, v, ns) \<and> \<not> cache_fresh t now) \<Longrightarrow>
   load_data_cached srv h cache now =
     (case load_data_from_mysql srv h of (v', es) \<Rightarrow> (v', es, Some (now, v', shown es)))"
  by (auto simp: load_data_cached_def)

text \<open>C14: within the five minutes of a cache entry, a run does not query the database (it still opens and closes a connection).\<close>

theorem resolve_cache_hit_no_query:
  assumes "cache = Some (t, v, ns)" and "cache_fresh t now"
  shows "Query h \<notin> set (events (resolve_tables srv c cache now))"
  using assms
  by (auto simp: resolve_tables_def load_data_cached_hit get_mysql_connection_def
      split: sum.splits option.splits prod.splits)

theorem resolve_cache_hit_no_query_witness:
  "Query 1 \<notin> set (events (resolve_tables (rows_server [example_raw_row]) example_config
      (Some (0, None, [])) 299))"
  using resolve_cache_hit_no_query [of "Some (0, None, [])" 0 None "[]" 299 1
      "rows_server [example_raw_row]" example_config]
  by (simp add: cache_fresh_def cache_ttl_def)

text \<open>C15: the cache is not keyed by the connection: within five minutes of an entry, two runs against different servers and configurations produce the same tables.\<close>

theorem resolve_cache_ignores_connection:
  assumes "cache = Some (t, v, ns)" and "cache_fresh t now"
    and "select_source c1 = External" and "select_source c2 = External"
    and "srv_connect srv1 c1 = Inr h1" and "srv_connect srv2 c2 = Inr h2"
  shows "outcome (resolve_tables srv1 c1 cache now) = outcome (resolve_tables srv2 c2 cache now)"
  using assms
  by (simp add: resolve_tables_def load_data_cached_hit get_mysql_connection_def
      split: option.splits sum.splits)

theorem resolve_cache_ignores_connection_witness:
  "outcome (resolve_tables (rows_server [example_raw_row]) example_config (Some (0, None, [])) 10) =
   outcome (resolve_tables failing_query_server (example_config\<lparr>db_name := ''other_db''\<rparr>)
      (Some (0, None, [])) 10)"
  using resolve_cache_ignores_connection [of "Some (0, None, [])" 0 None "[]" 10 example_config
      "example_config\<lparr>db_name := ''other_db''\<rparr>" "rows_server [example_raw_row]" 1 failing_query_server 1]
  by (simp add: cache_fresh_def cache_ttl_def example_config_def select_source_def rows_server_def
      failing_query_server_def)

text \<open>C6: a failing query is reported, the connection is still closed, the pipeline falls back to the static dataset, and the failure (None) is what the cache stores.\<close>

theorem resolve_query_failure:
  assumes "select_source c = External" and "srv_connect srv c = Inr h" and "srv_query srv h = Inl e"
    and "cache = None"
  shows "resolve_tables srv c cache now =
     \<lparr>outcome = Inr static_tables,
      events = [Connect h, Query h, Show (NError (''Error loading data from MySQL: '' @ e)), Close h, Show msg_static],
      cache' = Some (now, None, [NError (''Error loading data from MySQL: '' @ e)])\<rparr>"
  using assms
  by (simp add: resolve_tables_def get_mysql_connection_def load_data_cached_def load_data_from_mysql_def
      load_static_data_static_tables)

theorem resolve_query_failure_witness:
  "outcome (resolve_tables failing_query_server example_config None 0) = Inr static_tables \<and>
   cache' (resolve_tables failing_query_server example_config None 0) =
     Some (0, None, [NError (''Error loading data from MySQL: Table anggaran_2025 does not exist'')])"
  using resolve_query_failure [of example_config failing_query_server 1
      "''Table anggaran_2025 does not exist''" None 0]
  by (simp add: example_config_def select_source_def failing_query_server_def)

text \<open>C16: a failed load is cached too: for five minutes after a failing query, every run falls back to the static dataset even when the server has recovered and returns data.\<close>

theorem failed_load_is_sticky:
  assumes "select_source c = External" and "srv_connect srv c = Inr h" and "srv_query srv h = Inl e"
    and "select_source c' = External" and "srv_connect srv' c' = Inr h'"
    and "now \<le> now'" and "now' < now + 300"
  shows "outcome (resolve_tables srv' c' (cache' (resolve_tables srv c None now)) now') = Inr static_tables"
  using assms
  by (simp add: resolve_tables_def get_mysql_connection_def load_data_cached_def load_data_from_mysql_def
      load_static_data_static_tables cache_fresh_def cache_ttl_def)

theorem failed_load_is_sticky_witness:
  "outcome (resolve_tables (rows_server [example_raw_row]) example_config
     (cache' (resolve_tables failing_query_server example_config None 0)) 120) = Inr static_tables"
  using failed_load_is_sticky [of example_config failing_query_server 1
      "''Table anggaran_2025 does not exist''" example_config "rows_server [example_raw_row]" 1 0 120]
  by (simp add: example_config_def select_source_def rows_server_def failing_query_server_def)

lemma static_miliar_ok: "miliar_ok (fst (snd static_tables))"
proof -
  obtain K S T where "load_static_data = Inr (map add_kat_miliar K, add_skpd_miliar S, map add_trend_miliar T)"
    by (rule load_static_data_eq)
  then have eq: "static_tables = (map add_kat_miliar K, add_skpd_miliar S, map add_trend_miliar T)"
    by (simp add: load_static_data_static_tables)
  show ?thesis unfolding eq by simp
qed

lemma normalize_external_miliar_ok: "normalize_external rs = Inr f \<Longrightarrow> miliar_ok f"
  by (auto simp: normalize_external_eq miliar_ok_def list_all_iff ext_to_skpd_def split: if_splits)

lemma external_tables_eq:
  "external_tables rows =
     (case normalize_external rows of
        Inl e \<Rightarrow> Inl e
      | Inr df \<Rightarrow> Inr (fst static_tables, df, snd (snd static_tables)))"
  unfolding external_tables_def load_static_data_static_tables by (simp add: prod.case_eq_if split: sum.split)

lemma resolve_tables_Inl:
  "outcome (resolve_tables srv c cache now) = Inl e \<Longrightarrow> e = none_startswith"
  by (auto simp: resolve_tables_def load_static_data_static_tables external_tables_eq normalize_external_eq
      split: if_splits prod.splits option.splits sum.splits)

lemma resolve_tables_Inr_cases:
  "outcome (resolve_tables srv c cache now) = Inr x \<Longrightarrow>
     x = static_tables \<or> (\<exists>rows. external_tables rows = Inr x)"
  by (auto simp: resolve_tables_def load_static_data_static_tables
      split: if_splits prod.splits option.splits sum.splits)

lemma external_tables_Inr:
  "external_tables rows = Inr x \<Longrightarrow>
     fst x = fst static_tables \<and> snd (snd x) = snd (snd static_tables) \<and> miliar_ok (fst (snd x))"
  by (auto simp: external_tables_eq dest: normalize_external_miliar_ok split: sum.splits)

lemma static_skpd_cols:
  "skpd_cols (fst (snd static_tables)) = [''kode'', ''nama_skpd'', ''kategori'', ''anggaran'', ''anggaran_miliar'']"
proof -
  obtain K S T where eq: "static_tables = (map add_kat_miliar K, add_skpd_miliar S, map add_trend_miliar T)"
    and S: "skpd_frame_of skpd_kode_col skpd_nama_col skpd_kategori_col skpd_anggaran_col = Inr S"
    by (rule static_tables_eq)
  from skpd_frame_of_cols [OF S] have "skpd_cols S = [''kode'', ''nama_skpd'', ''kategori'', ''anggaran'']"
    by simp
  then show ?thesis by (simp add: eq add_skpd_miliar_def)
qed

text \<open>Every department table the pipeline yields has the five columns, in the order of
  its source.\<close>

lemma resolve_tables_cols:
  "outcome (resolve_tables srv c cache now) = Inr x \<Longrightarrow>
     skpd_cols (fst (snd x)) = [''kode'', ''nama_skpd'', ''kategori'', ''anggaran'', ''anggaran_miliar''] \<or>
     skpd_cols (fst (snd x)) = [''kode'', ''nama_skpd'', ''anggaran'', ''anggaran_miliar'', ''kategori'']"
  by (drule resolve_tables_Inr_cases)
     (auto simp: static_skpd_cols external_tables_eq normalize_external_eq split: sum.splits if_splits)

text \<open>C7: whatever path the pipeline takes, the category and trend tables are the static ones and the department table carries a consistent billions column.\<close>

theorem resolve_tables_invariant:
  assumes "outcome (resolve_tables srv c cache now) = Inr x"
  shows "fst x = fst static_tables \<and> snd (snd x) = snd (snd static_tables) \<and> miliar_ok (fst (snd x))"
  using resolve_tables_Inr_cases [OF assms] static_miliar_ok external_tables_Inr by blast

theorem resolve_tables_invariant_witness:
  "fst static_tables = fst static_tables \<and> snd (snd static_tables) = snd (snd static_tables) \<and>
   miliar_ok (fst (snd static_tables))"
  using resolve_tables_invariant [of refused_server "example_config\<lparr>use_db := False\<rparr>" None 0 static_tables]
  by (simp add: resolve_tables_def select_source_def load_static_data_static_tables)

text \<open>C8: a successful load on an empty cache yields the static category and trend tables with the loaded, normalized department table, in the order connect, query, close, success notice, and caches the loaded frame.\<close>

theorem resolve_external_success:
  assumes "select_source c = External" and "srv_connect srv c = Inr h" and "srv_query srv h = Inr rows"
    and "cache = None" and "list_all (\<lambda>r. raw_kode r \<noteq> None) rows"
  shows "\<exists>f. normalize_external (coerce_frame rows) = Inr f \<and>
     resolve_tables srv c cache now =
       \<lparr>outcome = Inr (fst static_tables, f, snd (snd static_tables)),
        events = [Connect h, Query h, Close h, Show msg_mysql],
        cache' = Some (now, Some (coerce_frame rows), [])\<rparr>"
proof -
  from assms(5) have "None \<notin> ext_kode ` set (coerce_frame rows)"
    by (auto simp: coerce_frame_def list_all_iff)
  then have "\<exists>f. normalize_external (coerce_frame rows) = Inr f"
    by (simp add: normalize_external_eq)
  then obtain f where f: "normalize_external (coerce_frame rows) = Inr f" by blast
  with assms have "resolve_tables srv c cache now =
       \<lparr>outcome = Inr (fst static_tables, f, snd (snd static_tables)),
        events = [Connect h, Query h, Close h, Show msg_mysql],
        cache' = Some (now, Some (coerce_frame rows), [])\<rparr>"
    by (simp add: resolve_tables_def get_mysql_connection_def load_data_cached_def load_data_from_mysql_def
        external_tables_eq)
  with f show ?thesis by blast
qed
theorem resolve_external_success_witness:
  "\<exists>f. normalize_external (coerce_frame [example_raw_row]) = Inr f \<and>
     events (resolve_tables (rows_server [example_raw_row]) example_config None 5) =
       [Connect 1, Query 1, Close 1, Show msg_mysql]"
  using resolve_external_success [of example_config "rows_server [example_raw_row]" 1 "[example_raw_row]" None 5]
  by (auto simp: example_config_def select_source_def rows_server_def example_raw_row_def)

text \<open>C9: a NULL code in the loaded rows crashes the run with AttributeError after the connection has been closed; the crash is not turned into a fallback.\<close>

theorem resolve_null_kode_crash:
  assumes "select_source c = External" and "srv_connect srv c = Inr h" and "srv_query srv h = Inr rows"
    and "cache = None" and "None \<in> raw_kode ` set rows"
  shows "resolve_tables srv c cache now =
     \<lparr>outcome = Inl none_startswith, events = [Connect h, Query h, Close h],
      cache' = Some (now, Some (coerce_frame rows), [])\<rparr>"
proof -
  from assms(5) have "None \<in> ext_kode ` set (coerce_frame rows)"
    by (simp add: coerce_frame_def image_image)
  with assms show ?thesis
    by (simp add: resolve_tables_def get_mysql_connection_def load_data_cached_def load_data_from_mysql_def
        external_tables_def normalize_external_eq)
qed

theorem resolve_null_kode_crash_witness:
  "outcome (resolve_tables (rows_server [example_raw_row, example_raw_row\<lparr>raw_kode := None\<rparr>])
      example_config None 5) = Inl none_startswith"
  using resolve_null_kode_crash [of example_config "rows_server [example_raw_row, example_raw_row\<lparr>raw_kode := None\<rparr>]" 1
      "[example_raw_row, example_raw_row\<lparr>raw_kode := None\<rparr>]" None 5]
  by (simp add: example_config_def select_source_def rows_server_def)

text \<open>C17: once the cache entry is five minutes old, a run with a working connection queries the database again.\<close>

theorem resolve_stale_cache_requeries:
  assumes "select_source c = External" and "srv_connect srv c = Inr h"
    and "cache = Some (t, v, ns)" and "\<not> cache_fresh t now"
  shows "Query h \<in> set (events (resolve_tables srv c cache now))"
  using assms
  by (auto simp: resolve_tables_def get_mysql_connection_def load_data_cached_def load_data_from_mysql_def
      split: sum.splits option.splits prod.splits)
theorem resolve_stale_cache_requeries_witness:
  "Query 1 \<in> set (events (resolve_tables (rows_server [example_raw_row]) example_config
      (Some (0, None, [])) 300))"
  using resolve_stale_cache_requeries [of example_config "rows_server [example_raw_row]" 1
      "Some (0, None, [])" 0 None "[]" 300]
  by (simp add: example_config_def select_source_def rows_server_def cache_fresh_def cache_ttl_def)


end
