(* ===== verification/Filters.thy ===== *)
theory Filters
  imports Dataset
begin

text \<open>
  The Filter Engine of \<open>src/dashboard_anggaran.py\<close> (lines 258--284): the search box,
  \<open>df_skpd['nama_skpd'].str.contains(search_term, case=False, na=False)\<close> applied
  when the term is non-empty, then the category multiselect, whose options and default
  are the categories of the unfiltered department table in order of first appearance
  (\<open>unique()\<close>), applied with \<open>isin\<close> when the selection is non-empty. Both
  filters keep the frame's columns and select rows in their order.

  \<open>str.contains\<close> treats the term as a regular expression (its default
  \<open>regex=True\<close>). The model matches the term literally and ignores case on the ASCII
  letters, which is what the code does for a term without regular-expression
  metacharacters.
\<close>

section \<open>Search (lines 258--266)\<close>

definition name_matches :: "string \<Rightarrow> string \<Rightarrow> bool" where
  "name_matches term name \<longleftrightarrow> contains (lower term) (lower name)"

definition filter_rows :: "(skpd_row \<Rightarrow> bool) \<Rightarrow> skpd_frame \<Rightarrow> skpd_frame" where
  "filter_rows P f = f\<lparr>skpd_rows := filter P (skpd_rows f)\<rparr>"
  \<comment> \<open>boolean indexing \<open>df[mask]\<close>: same columns, the rows where the mask holds\<close>

definition search_filter :: "string \<Rightarrow> skpd_frame \<Rightarrow> skpd_frame" where
  "search_filter term f =
     (if truthy_str term then filter_rows (\<lambda>r. name_matches term (nama_skpd r)) f else f)"

section \<open>Category filter (lines 268--284)\<close>

definition category_options :: "skpd_frame \<Rightarrow> string list" where
  "category_options f = remdups (map kategori (skpd_rows f))"
  \<comment> \<open>\<open>df_skpd['kategori'].unique().tolist()\<close>: first appearances, in order\<close>

definition category_filter :: "string list \<Rightarrow> skpd_frame \<Rightarrow> skpd_frame" where
  "category_filter sel f =
     (if sel \<noteq> [] then filter_rows (\<lambda>r. kategori r \<in> set sel) f else f)"

text \<open>The working subset every view below line 284 uses: search first, then the
  category selection.\<close>

definition filter_view :: "string \<Rightarrow> string list \<Rightarrow> skpd_frame \<Rightarrow> skpd_frame" where
  "filter_view term sel f = category_filter sel (search_filter term f)"

section \<open>Facts about the filters\<close>

lemma lower_char_idem [simp]: "lower_char (lower_char c) = lower_char c"
  by (cases c) (simp add: of_char_def)

lemma lower_idem [simp]: "lower (lower s) = lower s"
  by (simp add: lower_def comp_def)

lemma lower_Nil_iff [simp]: "lower s = [] \<longleftrightarrow> s = []"
  by (simp add: lower_def)

lemma name_matches_lower [simp]:
  "name_matches (lower term) n = name_matches term n"
  "name_matches term (lower n) = name_matches term n"
  by (simp_all add: name_matches_def)

lemma filter_rows_simps [simp]:
  "skpd_cols (filter_rows P f) = skpd_cols f"
  "skpd_rows (filter_rows P f) = filter P (skpd_rows f)"
  by (simp_all add: filter_rows_def)

lemma filter_rows_comm: "filter_rows P (filter_rows Q f) = filter_rows Q (filter_rows P f)"
  by (simp add: filter_rows_def conj_commute)

lemma filter_rows_idem [simp]: "filter_rows P (filter_rows P f) = filter_rows P f"
  by (simp add: filter_rows_def)

lemma filter_rows_all: "(\<And>r. r \<in> set (skpd_rows f) \<Longrightarrow> P r) \<Longrightarrow> filter_rows P f = f"
  by (simp add: filter_rows_def filter_all_id)

lemma search_filter_rows:
  "skpd_rows (search_filter t f) = filter (\<lambda>r. t = [] \<or> name_matches t (nama_skpd r)) (skpd_rows f)"
  by (simp add: search_filter_def truthy_str_def)

lemma category_filter_rows:
  "skpd_rows (category_filter sel f) = filter (\<lambda>r. sel = [] \<or> kategori r \<in> set sel) (skpd_rows f)"
  by (simp add: category_filter_def)

lemma filter_cols [simp]:
  "skpd_cols (search_filter t f) = skpd_cols f" "skpd_cols (category_filter sel f) = skpd_cols f"
  by (simp_all add: search_filter_def category_filter_def)

lemma frame_eqI: "skpd_cols f = skpd_cols g \<Longrightarrow> skpd_rows f = skpd_rows g \<Longrightarrow> skpd_frame.more f = skpd_frame.more g \<Longrightarrow> f = g"
  by simp

lemma category_filter_all:
  "(\<And>r. r \<in> set (skpd_rows f) \<Longrightarrow> kategori r \<in> set sel) \<Longrightarrow> category_filter sel f = f"
  by (simp add: category_filter_def filter_rows_all)

lemma category_filter_options: "category_filter (category_options f) f = f"
  by (rule category_filter_all) (simp add: category_options_def)





text \<open>C22: an empty search term and the default selection (every category of the table) leave the table unchanged; so does an empty selection, where the spec asks for an empty result.\<close>

theorem filter_identities:
  "search_filter [] f = f \<and> category_filter [] f = f \<and> category_filter (category_options f) f = f \<and>
   filter_view [] (category_options f) f = f"
proof -
  have "search_filter [] f = f" by (simp add: search_filter_def)
  moreover have "category_filter [] f = f" by (simp add: category_filter_def)
  ultimately show ?thesis by (simp add: filter_view_def category_filter_options)
qed


lemma map_filter_pair:
  "map (\<lambda>r. (g r, h r)) (filter (\<lambda>r. P (g r)) xs) = filter (\<lambda>(n, a). P n) (map (\<lambda>r. (g r, h r)) xs)"
  by (induction xs) auto

lemma static_search_rows:
  assumes "load_static_data = Inr (k, s, tr)"
  shows "map (\<lambda>r. (nama_skpd r, anggaran r)) (skpd_rows (filter_view t (category_options s) s)) =
       filter (\<lambda>(n, a). t = [] \<or> name_matches t n) (zip skpd_nama_col (map Some skpd_anggaran_col))"
proof -
  obtain K S T where eq: "load_static_data = Inr (map add_kat_miliar K, add_skpd_miliar S, map add_trend_miliar T)"
    and S: "skpd_frame_of skpd_kode_col skpd_nama_col skpd_kategori_col skpd_anggaran_col = Inr S"
    by (rule load_static_data_eq)
  from assms eq have s: "s = add_skpd_miliar S" by (metis prod.inject sum.inject(2))
  have cat: "category_filter (category_options s) (search_filter t s) = search_filter t s"
    by (rule category_filter_all) (auto simp: category_options_def search_filter_rows)
  have "map (\<lambda>r. (nama_skpd r, anggaran r)) (skpd_rows (filter_view t (category_options s) s)) =
       filter (\<lambda>(n, a). t = [] \<or> name_matches t n) (map (\<lambda>r. (nama_skpd r, anggaran r)) (skpd_rows s))"
    unfolding filter_view_def cat search_filter_rows by (rule map_filter_pair)
  also have "\<dots> = filter (\<lambda>(n, a). t = [] \<or> name_matches t n) (zip skpd_nama_col (map Some skpd_anggaran_col))"
    using skpd_frame_of_names [OF S] by (simp add: s)
  finally show ?thesis .
qed

text \<open>On the static dataset with the default selection, the terms kesehatan and KESEHATAN select exactly Dinas Kesehatan with amount 165156847795, and zzz selects no row.\<close>

theorem search_examples_static:
  "\<exists>k s tr. load_static_data = Inr (k, s, tr) \<and>
     map (\<lambda>r. (nama_skpd r, anggaran r)) (skpd_rows (filter_view ''kesehatan'' (category_options s) s)) =
       [(''Dinas Kesehatan'', Some 165156847795)] \<and>
     map (\<lambda>r. (nama_skpd r, anggaran r)) (skpd_rows (filter_view ''KESEHATAN'' (category_options s) s)) =
       [(''Dinas Kesehatan'', Some 165156847795)] \<and>
     skpd_rows (filter_view ''zzz'' (category_options s) s) = []"
proof -
  obtain k s tr where eq: "load_static_data = Inr (k, s, tr)" by (rule load_static_data_eq) blast
  then have "map (\<lambda>r. (nama_skpd r, anggaran r)) (skpd_rows (filter_view ''kesehatan'' (category_options s) s)) =
       [(''Dinas Kesehatan'', Some 165156847795)]"
    "map (\<lambda>r. (nama_skpd r, anggaran r)) (skpd_rows (filter_view ''KESEHATAN'' (category_options s) s)) =
       [(''Dinas Kesehatan'', Some 165156847795)]"
    "map (\<lambda>r. (nama_skpd r, anggaran r)) (skpd_rows (filter_view ''zzz'' (category_options s) s)) = []"
    by (simp_all add: static_search_rows skpd_nama_col_def skpd_anggaran_col_def name_matches_def lower_def)
  then show ?thesis
    by (intro exI[of _ k] exI[of _ s] exI[of _ tr] conjI) (simp_all add: eq)
qed
end
