(* ===== verification/Metrics.thy ===== *)
theory Metrics
  imports Filters "HOL-Library.Multiset"
begin

text \<open>
  What \<open>src/dashboard_anggaran.py\<close> computes from the tables for display: the four
  summary metrics (lines 288--304), the ten largest departments of the Overview chart
  (line 346), and the selection, comparison and radar traces of the comparison tab
  (lines 363--410). Pandas aggregates skip NaN (\<open>skipna=True\<close>): the mean and the
  maximum of no value are NaN, written \<open>None\<close>; the sum of no value is 0.
  \<open>nlargest\<close> drops NaN and keeps the first of equal values (\<open>keep='first'\<close>),
  which a stable sort on the negated amount gives.
\<close>

section \<open>Summary metrics (lines 288--304)\<close>

definition nan_values :: "amount list \<Rightarrow> int list" where
  "nan_values xs = List.map_filter (\<lambda>x. x) xs"
  \<comment> \<open>the values a \<open>skipna\<close> aggregate sees\<close>

definition total_anggaran :: "kategori_row list \<Rightarrow> int" where
  "total_anggaran k = sum_list (map kat_anggaran k)"

definition mean_amount :: "amount list \<Rightarrow> rat option" where
  "mean_amount xs =
     (let vs = nan_values xs in
      if vs = [] then None else Some (of_int (sum_list vs) / of_nat (length vs)))"

definition max_amount :: "amount list \<Rightarrow> int option" where
  "max_amount xs = (let vs = nan_values xs in if vs = [] then None else Some (Max (set vs)))"

record metrics =
  total :: int
  rata_rata :: "rat option"
  tertinggi :: "int option"
  jumlah_skpd :: nat

definition summary_metrics :: "kategori_row list \<Rightarrow> skpd_frame \<Rightarrow> metrics" where
  "summary_metrics df_kategori df_filtered =
     \<lparr>total = total_anggaran df_kategori,
      rata_rata = mean_amount (map anggaran (skpd_rows df_filtered)),
      tertinggi = max_amount (map anggaran (skpd_rows df_filtered)),
      jumlah_skpd = length (skpd_rows df_filtered)\<rparr>"

section \<open>The largest departments (lines 346 and 370)\<close>

definition nlargest :: "nat \<Rightarrow> skpd_row list \<Rightarrow> skpd_row list" where
  "nlargest n rows =
     take n (sort_key (\<lambda>r. - the (anggaran r)) (filter (\<lambda>r. anggaran r \<noteq> None) rows))"

definition top_skpd :: "skpd_frame \<Rightarrow> skpd_row list" where
  "top_skpd f = nlargest 10 (skpd_rows f)"

text \<open>
  What \<open>nlargest\<close> promises: its result is drawn from the rows with a value, has
  \<open>min n\<close> of their number of rows, is in decreasing order of amount, and no row left
  out has a larger amount than a row taken.
\<close>

definition is_top :: "nat \<Rightarrow> skpd_row list \<Rightarrow> skpd_row list \<Rightarrow> bool" where
  "is_top n rows res \<longleftrightarrow>
     (let valid = filter (\<lambda>r. anggaran r \<noteq> None) rows in
      mset res \<subseteq># mset valid \<and> length res = min n (length valid) \<and>
      sorted_wrt (\<lambda>a b. the (anggaran b) \<le> the (anggaran a)) res \<and>
      (\<forall>b \<in># mset valid - mset res. \<forall>a \<in> set res. the (anggaran b) \<le> the (anggaran a)))"

section \<open>The comparison tab (lines 363--410)\<close>

definition compare_options :: "skpd_frame \<Rightarrow> string list" where
  "compare_options f = map nama_skpd (skpd_rows f)"

definition compare_default :: "skpd_frame \<Rightarrow> string list" where
  "compare_default f = map nama_skpd (nlargest 5 (skpd_rows f))"

definition compare_rows :: "string list \<Rightarrow> skpd_frame \<Rightarrow> skpd_row list" where
  "compare_rows sel f = filter (\<lambda>r. nama_skpd r \<in> set sel) (skpd_rows f)"

text \<open>
  The radar loop over \<open>skpd_to_compare[:5]\<close>: each name's first row in the compared
  rows, \<open>skpd_data['anggaran_miliar'].values[0]\<close>, which raises \<open>IndexError\<close> for a
  name without a row.
\<close>

fun radar_points :: "string list \<Rightarrow> skpd_row list \<Rightarrow> py_error + (string \<times> rat option) list" where
  "radar_points [] cmp = Inr []"
| "radar_points (s # ss) cmp =
     (case filter (\<lambda>r. nama_skpd r = s) cmp of
        [] \<Rightarrow> Inl (IndexError ''index 0 is out of bounds for axis 0 with size 0'')
      | r # _ \<Rightarrow>
          (case radar_points ss cmp of
             Inl e \<Rightarrow> Inl e
           | Inr ps \<Rightarrow> Inr ((s, anggaran_miliar r) # ps)))"

definition radar_traces :: "string list \<Rightarrow> skpd_frame \<Rightarrow> py_error + (string \<times> rat option) list" where
  "radar_traces sel f = radar_points (take 5 sel) (compare_rows sel f)"

section \<open>Example rows\<close>

definition example_rows :: "skpd_row list" where
  "example_rows =
     [\<lparr>kode = ''1.02.0.00.0.00.01.0000'', nama_skpd = ''Dinas Kesehatan'',
       kategori = ''Urusan Wajib - Pelayanan Dasar'', anggaran = Some 165156847795,
       anggaran_miliar = Some (miliar 165156847795)\<rparr>,
      \<lparr>kode = ''2.09.0.00.0.00.01.0000'', nama_skpd = ''Dinas Pangan'',
       kategori = ''Urusan Wajib - Non Pelayanan Dasar'', anggaran = None, anggaran_miliar = None\<rparr>]"

section \<open>Facts about the metrics and the selections\<close>

lemma nan_values_simps [simp]:
  "nan_values [] = []" "nan_values (None # xs) = nan_values xs" "nan_values (Some v # xs) = v # nan_values xs"
  by (simp_all add: nan_values_def)

lemma set_nan_values: "set (nan_values xs) = {v. Some v \<in> set xs}"
proof (induction xs)
  case Nil
  then show ?case by simp
next
  case (Cons a xs)
  then show ?case by (cases a) auto
qed

lemma sort_key_desc_sorted:
  "sorted_wrt (\<lambda>a b. the (anggaran b) \<le> the (anggaran a)) (sort_key (\<lambda>r. - the (anggaran r)) xs)"
proof -
  have "sorted (map (\<lambda>r. - the (anggaran r)) (sort_key (\<lambda>r. - the (anggaran r)) xs))" by simp
  then show ?thesis by (simp add: sorted_map)
qed

text \<open>C24: refinement of the top-n selection: \<open>nlargest\<close> as the code uses it returns rows with a value only, \<open>min n\<close> of them, in decreasing order of amount, and leaves out no row with a larger amount than one it takes.\<close>

theorem nlargest_is_top: "is_top n rows (nlargest n rows)"
proof -
  define valid where "valid = filter (\<lambda>r. anggaran r \<noteq> None) rows"
  define ys where "ys = sort_key (\<lambda>r. - the (anggaran r)) valid"
  have parts: "nlargest n rows = take n ys" "mset ys = mset valid"
    "sorted_wrt (\<lambda>a b. the (anggaran b) \<le> the (anggaran a)) ys"
    by (simp_all add: nlargest_def ys_def valid_def sort_key_desc_sorted)
  have sw: "sorted_wrt (\<lambda>a b. the (anggaran b) \<le> the (anggaran a)) (take n ys @ drop n ys)"
    using parts(3) by simp
  have md: "mset valid = mset (take n ys) + mset (drop n ys)"
    using parts(2) by (metis append_take_drop_id mset_append)
  have "mset (take n ys) \<subseteq># mset valid"
    using md by simp
  moreover have "length (take n ys) = min n (length valid)"
    using parts(2) by (drule_tac mset_eq_length) simp
  moreover have "sorted_wrt (\<lambda>a b. the (anggaran b) \<le> the (anggaran a)) (take n ys)"
    using parts(3) by (rule sorted_wrt_take)
  moreover have "mset valid - mset (take n ys) = mset (drop n ys)"
    using md by simp
  moreover have "\<forall>b \<in> set (drop n ys). \<forall>a \<in> set (take n ys). the (anggaran b) \<le> the (anggaran a)"
    using sw unfolding sorted_wrt_append by blast
  ultimately show ?thesis
    unfolding is_top_def Let_def valid_def [symmetric] parts(1) by simp
qed

theorem nlargest_is_top_witness: "is_top 1 example_rows (nlargest 1 example_rows)"
  using nlargest_is_top [of 1 example_rows] .

lemma nan_values_anggaran:
  "nan_values (map anggaran rows) = map (\<lambda>r. the (anggaran r)) (filter (\<lambda>r. anggaran r \<noteq> None) rows)"
  by (induction rows) auto

lemma nlargest_hd_max:
  assumes "0 < n" and "filter (\<lambda>r. anggaran r \<noteq> None) rows \<noteq> []"
  obtains r rs where "nlargest n rows = r # rs" and "anggaran r \<noteq> None" and "r \<in> set rows"
    and "\<And>r'. r' \<in> set rows \<Longrightarrow> anggaran r' \<noteq> None \<Longrightarrow> the (anggaran r') \<le> the (anggaran r)"
proof -
  define valid where "valid = filter (\<lambda>r. anggaran r \<noteq> None) rows"
  define ys where "ys = sort_key (\<lambda>r. - the (anggaran r)) valid"
  have "ys \<noteq> []" using assms(2) unfolding ys_def valid_def by (metis length_0_conv length_sort)
  then obtain r rs' where ys: "ys = r # rs'" by (cases ys) auto
  have set_ys: "set ys = set valid" by (simp add: ys_def)
  have sorted: "sorted_wrt (\<lambda>a b. the (anggaran b) \<le> the (anggaran a)) ys"
    by (simp add: ys_def sort_key_desc_sorted)
  have "nlargest n rows = r # take (n - 1) rs'"
    using assms(1) ys by (simp add: nlargest_def ys_def valid_def take_Cons')
  moreover have "r \<in> set valid" using set_ys ys by auto
  moreover have "\<And>r'. r' \<in> set rows \<Longrightarrow> anggaran r' \<noteq> None \<Longrightarrow> the (anggaran r') \<le> the (anggaran r)"
  proof -
    fix r' assume "r' \<in> set rows" "anggaran r' \<noteq> None"
    then have "r' \<in> set ys" using set_ys by (simp add: valid_def)
    with sorted ys show "the (anggaran r') \<le> the (anggaran r)" by auto
  qed
  ultimately show thesis using that by (auto simp: valid_def)
qed

text \<open>C25: the Anggaran Tertinggi metric is the amount of the first bar of the top-n chart, and both are NaN/empty together.\<close>

theorem tertinggi_is_top_bar:
  assumes "0 < n"
  shows "max_amount (map anggaran rows) = (case nlargest n rows of [] \<Rightarrow> None | r # _ \<Rightarrow> anggaran r)"
proof (cases "filter (\<lambda>r. anggaran r \<noteq> None) rows = []")
  case True
  then show ?thesis by (simp add: max_amount_def nan_values_anggaran nlargest_def)
next
  case False
  then obtain r rs where top: "nlargest n rows = r # rs" and some: "anggaran r \<noteq> None" and "r \<in> set rows"
    and le: "\<And>r'. r' \<in> set rows \<Longrightarrow> anggaran r' \<noteq> None \<Longrightarrow> the (anggaran r') \<le> the (anggaran r)"
    by (rule nlargest_hd_max [OF assms]) blast
  let ?vs = "map (\<lambda>r. the (anggaran r)) (filter (\<lambda>r. anggaran r \<noteq> None) rows)"
  have "the (anggaran r) \<in> set ?vs" using \<open>r \<in> set rows\<close> some by auto
  moreover have "\<forall>v \<in> set ?vs. v \<le> the (anggaran r)" using le by auto
  ultimately have "Max (set ?vs) = the (anggaran r)"
    by (intro Max_eqI) auto
  with False top some show ?thesis
    by (auto simp: max_amount_def nan_values_anggaran)
qed

theorem tertinggi_is_top_bar_witness:
  "max_amount (map anggaran example_rows) = Some 165156847795 \<and>
   max_amount (map anggaran example_rows) =
     (case nlargest 10 example_rows of [] \<Rightarrow> None | r # _ \<Rightarrow> anggaran r)"
  using tertinggi_is_top_bar [of 10 example_rows]
  by (simp add: example_rows_def max_amount_def)

lemma sum_list_le_max:
  fixes vs :: "int list"
  assumes "vs \<noteq> []"
  shows "of_nat (length vs) * Min (set vs) \<le> sum_list vs \<and> sum_list vs \<le> of_nat (length vs) * Max (set vs)"
proof -
  have "(\<Sum>x\<leftarrow>vs. Min (set vs)) \<le> (\<Sum>x\<leftarrow>vs. x)" by (rule sum_list_mono) simp
  moreover have "(\<Sum>x\<leftarrow>vs. x) \<le> (\<Sum>x\<leftarrow>vs. Max (set vs))" by (rule sum_list_mono) simp
  ultimately show ?thesis by (simp add: sum_list_triv)
qed

text \<open>C26: the Rata-rata metric lies between the smallest and the largest non-NaN amount of the filtered table.\<close>

theorem rata_rata_bounds:
  assumes "mean_amount xs = Some m"
  shows "of_int (Min (set (nan_values xs))) \<le> m \<and> m \<le> of_int (Max (set (nan_values xs)))"
proof -
  let ?vs = "nan_values xs"
  from assms have ne: "?vs \<noteq> []" and m: "m = of_int (sum_list ?vs) / of_nat (length ?vs)"
    by (auto simp: mean_amount_def Let_def split: if_splits)
  from ne have pos: "(0::rat) < of_nat (length ?vs)" by simp
  from sum_list_le_max [OF ne] have
    "of_int (int (length ?vs) * Min (set ?vs)) \<le> (of_int (sum_list ?vs) :: rat)"
    "(of_int (sum_list ?vs) :: rat) \<le> of_int (int (length ?vs) * Max (set ?vs))"
    by (simp_all only: of_int_le_iff)
  with pos show ?thesis
    by (simp add: m pos_divide_le_eq pos_le_divide_eq mult.commute)
qed

theorem rata_rata_bounds_witness:
  "mean_amount [Some 1, None, Some 3] = Some 2 \<and>
   of_int (Min (set (nan_values [Some 1, None, Some 3]))) \<le> (2::rat) \<and>
   (2::rat) \<le> of_int (Max (set (nan_values [Some 1, None, Some 3])))"
proof -
  have "mean_amount [Some 1, None, Some 3] = Some 2" by (simp add: mean_amount_def)
  with rata_rata_bounds [of "[Some 1, None, Some 3]" 2] show ?thesis by simp
qed

lemma set_nlargest: "set (nlargest n rows) \<subseteq> set rows"
  by (auto simp: nlargest_def dest: in_set_takeD)

lemma radar_points_Inr:
  "set ss \<subseteq> set (map nama_skpd cmp) \<Longrightarrow> \<exists>ps. radar_points ss cmp = Inr ps \<and> map fst ps = ss"
proof (induction ss)
  case Nil
  then show ?case by simp
next
  case (Cons s ss)
  then obtain ps where ps: "radar_points ss cmp = Inr ps" "map fst ps = ss" by auto
  from Cons.prems obtain r where "r \<in> set cmp" "nama_skpd r = s" by auto
  then obtain r' rs where "filter (\<lambda>r. nama_skpd r = s) cmp = r' # rs"
    by (metis (mono_tags) empty_filter_conv list.exhaust)
  with ps show ?case by simp
qed

lemma compare_rows_names:
  assumes "set sel \<subseteq> set (compare_options f)"
  shows "set (take 5 sel) \<subseteq> set (map nama_skpd (compare_rows sel f))"
proof
  fix s assume s: "s \<in> set (take 5 sel)"
  then have "s \<in> set sel" by (rule in_set_takeD)
  with assms obtain r where "r \<in> set (skpd_rows f)" "nama_skpd r = s"
    by (auto simp: compare_options_def)
  with \<open>s \<in> set sel\<close> show "s \<in> set (map nama_skpd (compare_rows sel f))"
    by (auto simp: compare_rows_def)
qed

text \<open>C27: a comparison selection drawn from the filtered table's names never makes the radar loop raise IndexError; it draws one trace per name among the first five selected.\<close>

theorem radar_traces_safe:
  assumes "set sel \<subseteq> set (compare_options f)"
  shows "\<exists>ps. radar_traces sel f = Inr ps \<and> map fst ps = take 5 sel"
  using compare_rows_names [OF assms] by (simp add: radar_traces_def radar_points_Inr)

theorem radar_traces_safe_witness:
  "\<exists>ps. radar_traces [''Dinas Kesehatan''] \<lparr>skpd_cols = [], skpd_rows = example_rows\<rparr> = Inr ps \<and>
     map fst ps = [''Dinas Kesehatan'']"
  using radar_traces_safe [of "[''Dinas Kesehatan'']" "\<lparr>skpd_cols = [], skpd_rows = example_rows\<rparr>"]
  by (simp add: compare_options_def example_rows_def)

lemma compare_default_options: "set (compare_default f) \<subseteq> set (compare_options f)"
  using set_nlargest by (auto simp: compare_default_def compare_options_def)

text \<open>The default comparison selection (the five largest departments) never makes the radar loop raise.\<close>

theorem compare_default_safe: "\<exists>ps. radar_traces (compare_default f) f = Inr ps"
  using compare_rows_names [OF compare_default_options] radar_points_Inr by (metis radar_traces_def)

lemma nan_values_Some [simp]: "nan_values (map Some xs) = xs"
  by (induction xs) auto

lemma filter_view_default:
  "filter_view [] (category_options f) f = f"
  by (simp add: filter_view_def search_filter_def category_filter_options)

lemma static_total: "total_anggaran (fst static_tables) = 835588906912"
  by (simp add: total_anggaran_def static_tables_columns kategori_anggaran_col_def)

text \<open>The metrics on the static dataset with no search and the default selection: total 835588906912 (the category table, not the 823999626297 of the 36 departments shown), mean 823999626297/36, maximum 248036170749, 36 departments.\<close>

theorem static_overview_metrics:
  "summary_metrics (fst static_tables)
     (filter_view [] (category_options (fst (snd static_tables))) (fst (snd static_tables))) =
   \<lparr>total = 835588906912, rata_rata = Some (823999626297 / 36), tertinggi = Some 248036170749,
    jumlah_skpd = 36\<rparr>"
proof -
  have a: "map anggaran (skpd_rows (fst (snd static_tables))) = map Some skpd_anggaran_col"
    by (rule static_tables_columns)
  have n: "length (skpd_rows (fst (snd static_tables))) = 36"
    using arg_cong [OF a, of length] by (simp add: static_col_lengths)
  have m: "mean_amount (map Some skpd_anggaran_col) = Some (823999626297 / 36)"
    by (simp add: mean_amount_def skpd_anggaran_col_def)
  have x: "max_amount (map Some skpd_anggaran_col) = Some 248036170749"
    by (simp add: max_amount_def skpd_anggaran_col_def)
  show ?thesis
    by (simp add: summary_metrics_def filter_view_default static_total a n m x)
qed

lemma map_nlargest:
  "map (\<lambda>r. (nama_skpd r, anggaran r)) (nlargest n rows) =
     take n (sort_key (\<lambda>p. - the (snd p)) (filter (\<lambda>p. snd p \<noteq> None) (map (\<lambda>r. (nama_skpd r, anggaran r)) rows)))"
proof -
  let ?g = "\<lambda>r. (nama_skpd r, anggaran r)"
  have "map ?g (nlargest n rows) =
      take n (map ?g (sort_key (\<lambda>r. (\<lambda>p. - the (snd p)) (?g r)) (filter (\<lambda>r. anggaran r \<noteq> None) rows)))"
    by (simp add: nlargest_def take_map)
  also have "\<dots> = take n (sort_key (\<lambda>p. - the (snd p)) (map ?g (filter (\<lambda>r. anggaran r \<noteq> None) rows)))"
    by (simp only: map_sort_key [where g = "\<lambda>r. (nama_skpd r, anggaran r)" and f = "\<lambda>p. - the (snd p)"])
  also have "map ?g (filter (\<lambda>r. anggaran r \<noteq> None) rows) = filter (\<lambda>p. snd p \<noteq> None) (map ?g rows)"
    by (simp add: filter_map comp_def)
  finally show ?thesis .
qed

text \<open>The top-10 chart on the static dataset lists these departments in this order.\<close>

theorem static_top10:
  "map nama_skpd (top_skpd (fst (snd static_tables))) =
     [''Dinas Pendidikan dan Kebudayaan'', ''Dinas Kesehatan'', ''Badan Keuangan Daerah'',
      ''Dinas Pekerjaan Umum'', ''Sekretariat DPRD'', ''Sekretariat Daerah'', ''Dinas Pertanian'',
      ''Dinas Kelautan dan Perikanan'', ''Dinas Perumahan Rakyat'', ''Dinas Peternakan'']"
proof -
  have "map nama_skpd (top_skpd (fst (snd static_tables))) =
      map fst (map (\<lambda>r. (nama_skpd r, anggaran r)) (nlargest 10 (skpd_rows (fst (snd static_tables)))))"
    by (simp add: top_skpd_def)
  also have "\<dots> = map fst (take 10 (sort_key (\<lambda>p. - the (snd p))
      (filter (\<lambda>p. snd p \<noteq> None) (zip skpd_nama_col (map Some skpd_anggaran_col)))))"
    by (simp only: map_nlargest static_tables_columns)
  also have "\<dots> = [''Dinas Pendidikan dan Kebudayaan'', ''Dinas Kesehatan'', ''Badan Keuangan Daerah'',
      ''Dinas Pekerjaan Umum'', ''Sekretariat DPRD'', ''Sekretariat Daerah'', ''Dinas Pertanian'',
      ''Dinas Kelautan dan Perikanan'', ''Dinas Perumahan Rakyat'', ''Dinas Peternakan'']"
    by (simp add: skpd_nama_col_def skpd_anggaran_col_def)
  finally show ?thesis .
qed
end
