(* ===== verification/Exports.thy ===== *)
theory Exports
  imports Normalize "HOL-Library.Multiset" "HOL-Library.List_Lexorder" "HOL-Library.Char_ord"
begin

text \<open>
  The Data Detail tab of \<open>src/dashboard_anggaran.py\<close> (lines 441--490): the display
  table of the filtered department table and its three exports. The display table
  selects four columns (raising \<open>KeyError\<close> if one is missing), formats the billions
  column as \<open>f"Rp {x:.2f} M"\<close>, renames the columns and sorts by code. The CSV export
  is \<open>to_csv(index=False)\<close> character by character: the header, one line per row, the
  minimal quoting of Python's \<open>csv\<close> writer, \<open>'\n'\<close> line ends; its cells are the
  texts pandas writes for strings, integers, floats and NaN. Strings are byte
  strings, so \<open>.encode('utf-8')\<close> is the identity of the model. The JSON and Excel
  exports are modelled as the values the libraries serialize: the JSON array of
  records and the three sheets of the workbook.
\<close>

section \<open>The display table (lines 441--450)\<close>

definition display_cols :: "string list" where
  "display_cols = [''kode'', ''nama_skpd'', ''kategori'', ''anggaran_miliar'']"

definition display_headers :: "string list" where
  "display_headers = [''Kode'', ''Nama SKPD'', ''Kategori'', ''Anggaran'']"

record display_row =
  d_kode :: string
  d_nama :: string
  d_kategori :: string
  d_anggaran :: string

text \<open>
  \<open>format(x, '.2f')\<close> rounds half to even; it is computed on the exact value of the
  billions column (the model's \<open>miliar\<close>), whose hundredths it rounds.
\<close>

definition round_half_even :: "int \<Rightarrow> int \<Rightarrow> int" where
  "round_half_even p q =
     (let d = p div q; r = p mod q in
      if 2 * r < q then d else if q < 2 * r then d + 1 else if even d then d else d + 1)"

definition cents :: "rat \<Rightarrow> int" where
  "cents x = (case quotient_of \<bar>x\<bar> of (p, q) \<Rightarrow> round_half_even (100 * p) q)"

definition two_digits :: "int \<Rightarrow> string" where
  "two_digits n = [digit_char (nat (n div 10)), digit_char (nat (n mod 10))]"

definition fixed2 :: "rat \<Rightarrow> string" where
  "fixed2 x = (if x < 0 then ''-'' else []) @ int_text (cents x div 100) @ ''.'' @ two_digits (cents x mod 100)"

definition format_miliar :: "rat option \<Rightarrow> string" where
  "format_miliar x = ''Rp '' @ (case x of None \<Rightarrow> ''nan'' | Some v \<Rightarrow> fixed2 v) @ '' M''"

definition to_display :: "skpd_row \<Rightarrow> display_row" where
  "to_display r = \<lparr>d_kode = kode r, d_nama = nama_skpd r, d_kategori = kategori r,
                   d_anggaran = format_miliar (anggaran_miliar r)\<rparr>"

definition key_error :: "string list \<Rightarrow> py_error" where
  "key_error cs = KeyError (join_with '', '' cs @ '' not in index'')"

text \<open>\<open>sort_values('Kode')\<close> sorts by Python's code-point order of strings, the
  lexicographic order of \<open>List_Lexorder\<close>; for equal codes the model keeps the
  table's order.\<close>

definition display_table :: "skpd_frame \<Rightarrow> py_error + display_row list" where
  "display_table f =
     (let missing = filter (\<lambda>c. c \<notin> set (skpd_cols f)) display_cols in
      if missing \<noteq> [] then Inl (key_error missing)
      else Inr (sort_key d_kode (map to_display (skpd_rows f))))"

section \<open>The CSV writer (line 458)\<close>

text \<open>The writer quotes a field holding the delimiter, the quote character or a line
  break, doubling its quotes; a row made of one empty field is written \<open>""\<close>.\<close>

definition csv_special :: "char \<Rightarrow> bool" where
  "csv_special c \<longleftrightarrow> c = CHR 0x2C \<or> c = CHR 0x22 \<or> c = CHR 0x0A \<or> c = CHR 0x0D"

fun double_quotes :: "string \<Rightarrow> string" where
  "double_quotes [] = []"
| "double_quotes (c # cs) = (if c = CHR 0x22 then [c, c] else [c]) @ double_quotes cs"

definition csv_field :: "string \<Rightarrow> string" where
  "csv_field s = (if list_ex csv_special s then CHR 0x22 # double_quotes s @ [CHR 0x22] else s)"

definition csv_line :: "string list \<Rightarrow> string" where
  "csv_line fs =
     (if fs = [[]] then [CHR 0x22, CHR 0x22] else join_with [CHR 0x2C] (map csv_field fs))
     @ [CHR 0x0A]"

definition to_csv :: "string list \<Rightarrow> string list list \<Rightarrow> string" where
  "to_csv header rows = concat (map csv_line (header # rows))"

section \<open>The cells pandas writes\<close>

text \<open>
  An integer column is written in decimal; a column that holds a NaN is a float column,
  whose integers are written \<open>repr(float(n))\<close>, i.e. with \<open>.0\<close>, and whose NaN is the
  empty field. The billions column is written \<open>repr(a / 1e9)\<close>, the shortest text that
  reads back as the same float: for \<open>|a| < 10^15\<close> this is the exact decimal
  \<open>a / 10^9\<close> without trailing zeros, in exponent notation below \<open>10^-4\<close>.
\<close>

definition strip_zeros :: "string \<Rightarrow> string" where
  "strip_zeros s = rev (dropWhile (\<lambda>c. c = CHR ''0'') (rev s))"

definition pad9 :: "nat \<Rightarrow> string" where
  "pad9 n = replicate (9 - length (nat_digits n)) (CHR ''0'') @ nat_digits n"

definition miliar_repr :: "int \<Rightarrow> string" where
  "miliar_repr a =
     (if a = 0 then ''0.0''
      else (let n = nat \<bar>a\<bar>; sg = (if a < 0 then ''-'' else []) in
        if n < 100000 then
          (let ds = strip_zeros (nat_digits n) in
           sg @ [hd ds] @ (if tl ds = [] then [] else CHR ''.'' # tl ds)
              @ ''e-0'' @ [digit_char (10 - length (nat_digits n))])
        else
          (let fr = strip_zeros (pad9 (n mod 1000000000)) in
           sg @ nat_digits (n div 1000000000) @ ''.'' @ (if fr = [] then ''0'' else fr))))"

definition csv_cell :: "bool \<Rightarrow> skpd_row \<Rightarrow> string \<Rightarrow> string" where
  "csv_cell fl r c =
     (if c = ''kode'' then kode r
      else if c = ''nama_skpd'' then nama_skpd r
      else if c = ''kategori'' then kategori r
      else if c = ''anggaran'' then
        (case anggaran r of None \<Rightarrow> [] | Some a \<Rightarrow> if fl then int_text a @ ''.0'' else int_text a)
      else if c = ''anggaran_miliar'' then
        (case anggaran_miliar r of None \<Rightarrow> [] | Some x \<Rightarrow> miliar_repr \<lfloor>x * 1000000000\<rfloor>)
      else [])"

text \<open>\<open>df_skpd_filtered.to_csv(index=False).encode('utf-8')\<close>; \<open>fl\<close> says whether the
  amount column of the loaded table is a float column.\<close>

definition export_csv :: "bool \<Rightarrow> skpd_frame \<Rightarrow> string" where
  "export_csv fl f = to_csv (skpd_cols f) (map (\<lambda>r. map (csv_cell fl r) (skpd_cols f)) (skpd_rows f))"

section \<open>The JSON export (line 484)\<close>

text \<open>
  \<open>to_json(orient='records')\<close> as the JSON value it writes: an array with one object
  per row, whose keys are the columns in order; NaN is \<open>null\<close>. The characters
  pandas' encoder prints for this value (indentation, escapes) are not modelled; its
  ten decimal places keep the nine decimals of a billions value exact.
\<close>

datatype json = JNull | JNum rat | JStr string | JObj "(string \<times> json) list" | JArr "json list"

definition json_cell :: "skpd_row \<Rightarrow> string \<Rightarrow> json" where
  "json_cell r c =
     (if c = ''kode'' then JStr (kode r)
      else if c = ''nama_skpd'' then JStr (nama_skpd r)
      else if c = ''kategori'' then JStr (kategori r)
      else if c = ''anggaran'' then (case anggaran r of None \<Rightarrow> JNull | Some a \<Rightarrow> JNum (of_int a))
      else if c = ''anggaran_miliar'' then (case anggaran_miliar r of None \<Rightarrow> JNull | Some x \<Rightarrow> JNum x)
      else JNull)"

definition export_json :: "skpd_frame \<Rightarrow> json" where
  "export_json f = JArr (map (\<lambda>r. JObj (map (\<lambda>c. (c, json_cell r c)) (skpd_cols f))) (skpd_rows f))"

section \<open>The Excel export (lines 466--480)\<close>

text \<open>
  The workbook \<open>pd.ExcelWriter\<close> writes: three sheets in the order of the
  \<open>to_excel\<close> calls, each a header row of column names and one row per table row;
  strings are text cells, amounts numeric cells, NaN an empty cell. Only the
  department sheet is filtered; the category and trend sheets hold the whole tables.
\<close>

datatype xcell = XStr string | XNum rat | XEmpty

record sheet =
  sheet_name :: string
  sheet_cells :: "xcell list list"

definition xl_amount :: "amount \<Rightarrow> xcell" where
  "xl_amount a = (case a of None \<Rightarrow> XEmpty | Some n \<Rightarrow> XNum (of_int n))"

definition xl_cell :: "skpd_row \<Rightarrow> string \<Rightarrow> xcell" where
  "xl_cell r c =
     (if c = ''kode'' then XStr (kode r)
      else if c = ''nama_skpd'' then XStr (nama_skpd r)
      else if c = ''kategori'' then XStr (kategori r)
      else if c = ''anggaran'' then xl_amount (anggaran r)
      else if c = ''anggaran_miliar'' then (case anggaran_miliar r of None \<Rightarrow> XEmpty | Some x \<Rightarrow> XNum x)
      else XEmpty)"

definition skpd_sheet :: "skpd_frame \<Rightarrow> xcell list list" where
  "skpd_sheet f = map XStr (skpd_cols f) # map (\<lambda>r. map (xl_cell r) (skpd_cols f)) (skpd_rows f)"

definition kategori_sheet :: "kategori_row list \<Rightarrow> xcell list list" where
  "kategori_sheet k =
     map XStr [''kode'', ''kategori'', ''anggaran'', ''anggaran_miliar''] #
     map (\<lambda>r. [XStr (kat_kode r), XStr (kat_kategori r), XNum (of_int (kat_anggaran r)), XNum (kat_miliar r)]) k"

definition trend_sheet :: "trend_row list \<Rightarrow> xcell list list" where
  "trend_sheet t =
     map XStr [''tahun'', ''kategori'', ''anggaran'', ''anggaran_miliar''] #
     map (\<lambda>r. [XNum (of_int (tahun r)), XStr (tr_kategori r), XNum (of_int (tr_anggaran r)), XNum (tr_miliar r)]) t"

definition export_excel :: "skpd_frame \<Rightarrow> kategori_row list \<Rightarrow> trend_row list \<Rightarrow> sheet list" where
  "export_excel f k t =
     [\<lparr>sheet_name = ''Anggaran SKPD'', sheet_cells = skpd_sheet f\<rparr>,
      \<lparr>sheet_name = ''Kategori'', sheet_cells = kategori_sheet k\<rparr>,
      \<lparr>sheet_name = ''Trend'', sheet_cells = trend_sheet t\<rparr>]"

section \<open>A sample table\<close>

text \<open>A department table in the column order of the MySQL path: a name with quotes and
  a comma, and a row whose amount is NaN (so the amount column is a float column).\<close>

definition example_frame :: skpd_frame where
  "example_frame =
     \<lparr>skpd_cols = [''kode'', ''nama_skpd'', ''anggaran'', ''anggaran_miliar'', ''kategori''],
      skpd_rows =
        [\<lparr>kode = ''3.25.0.00.0.00.01.0000'',
          nama_skpd = ''Dinas '' @ [CHR 0x22] @ ''Pariwisata'' @ [CHR 0x22] @ '', Seni'',
          kategori = ''Urusan Pilihan'', anggaran = Some 1500000000,
          anggaran_miliar = Some (miliar 1500000000)\<rparr>,
         \<lparr>kode = ''1.02.0.00.0.00.01.0000'', nama_skpd = ''Dinas Kesehatan'',
          kategori = ''Urusan Wajib - Pelayanan Dasar'', anggaran = None, anggaran_miliar = None\<rparr>]\<rparr>"

section \<open>Reading the exports back\<close>

text \<open>
  What a consumer of the files reads. A JSON record is read back into a department
  row by its keys; a CSV text by the reader of RFC 4180 (Python's \<open>csv.reader\<close> on
  the default dialect): a field is either quoted, with doubled quotes inside, or runs
  to the next comma or line end; every line ends with \<open>'\n'\<close>.
\<close>

definition skpd_columns :: "string list" where
  "skpd_columns = [''kode'', ''nama_skpd'', ''kategori'', ''anggaran'', ''anggaran_miliar'']"

definition json_amount :: "json \<Rightarrow> amount option" where
  "json_amount j = (case j of JNull \<Rightarrow> Some None
     | JNum x \<Rightarrow> if x = of_int \<lfloor>x\<rfloor> then Some (Some \<lfloor>x\<rfloor>) else None | _ \<Rightarrow> None)"

definition json_rat :: "json \<Rightarrow> rat option option" where
  "json_rat j = (case j of JNull \<Rightarrow> Some None | JNum x \<Rightarrow> Some (Some x) | _ \<Rightarrow> None)"

definition json_str :: "json \<Rightarrow> string option" where
  "json_str j = (case j of JStr s \<Rightarrow> Some s | _ \<Rightarrow> None)"

definition json_to_row :: "json \<Rightarrow> skpd_row option" where
  "json_to_row j =
     (case j of
        JObj kvs \<Rightarrow>
          (case (Option.bind (map_of kvs ''kode'') json_str, Option.bind (map_of kvs ''nama_skpd'') json_str,
                 Option.bind (map_of kvs ''kategori'') json_str, Option.bind (map_of kvs ''anggaran'') json_amount,
                 Option.bind (map_of kvs ''anggaran_miliar'') json_rat) of
             (Some k, Some n, Some c, Some a, Some m) \<Rightarrow>
               Some \<lparr>kode = k, nama_skpd = n, kategori = c, anggaran = a, anggaran_miliar = m\<rparr>
           | _ \<Rightarrow> None)
      | _ \<Rightarrow> None)"

definition read_json_records :: "json \<Rightarrow> skpd_row list option" where
  "read_json_records j = (case j of JArr js \<Rightarrow> those (map json_to_row js) | _ \<Rightarrow> None)"

fun quoted_body :: "string \<Rightarrow> (string \<times> string) option" where
  "quoted_body [] = None"
| "quoted_body [c] = (if c = CHR 0x22 then Some ([], []) else None)"
| "quoted_body (c # d # cs) =
     (if c = CHR 0x22 then
        (if d = CHR 0x22 then map_option (apfst (Cons c)) (quoted_body cs) else Some ([], d # cs))
      else map_option (apfst (Cons c)) (quoted_body (d # cs)))"

fun plain_field :: "string \<Rightarrow> string \<times> string" where
  "plain_field [] = ([], [])"
| "plain_field (c # cs) =
     (if c = CHR 0x2C \<or> c = CHR 0x0A then ([], c # cs) else apfst (Cons c) (plain_field cs))"

definition read_field :: "string \<Rightarrow> (string \<times> string) option" where
  "read_field s =
     (case s of [] \<Rightarrow> Some ([], [])
      | c # cs \<Rightarrow> if c = CHR 0x22 then quoted_body cs else Some (plain_field s))"

lemma quoted_body_length: "quoted_body s = Some (f, r) \<Longrightarrow> length r < length s"
  by (induction s arbitrary: f rule: quoted_body.induct) (auto split: if_splits)

lemma plain_field_length: "length (snd (plain_field s)) \<le> length s"
  by (induction s) auto

lemma read_field_length:
  assumes "read_field s = Some (f, r)"
  shows "length r \<le> length s"
proof (cases s)
  case Nil
  with assms show ?thesis by (simp add: read_field_def)
next
  case (Cons c cs)
  show ?thesis
  proof (cases "c = CHR 0x22")
    case True
    with assms Cons have "quoted_body cs = Some (f, r)" by (simp add: read_field_def)
    with Cons show ?thesis by (auto dest: quoted_body_length)
  next
    case False
    with assms Cons have "plain_field s = (f, r)" by (simp add: read_field_def)
    with plain_field_length [of s] show ?thesis by simp
  qed
qed

function read_fields :: "string \<Rightarrow> (string list \<times> string) option" where
  "read_fields s =
     (case read_field s of
        None \<Rightarrow> None
      | Some (f, []) \<Rightarrow> None
      | Some (f, c # r) \<Rightarrow>
          if c = CHR 0x2C then map_option (apfst (Cons f)) (read_fields r)
          else if c = CHR 0x0A then Some ([f], r) else None)"
  by pat_completeness auto
termination
proof (relation "measure length", goal_cases)
  case 1
  show ?case by simp
next
  case (2 s p f y c r)
  then have "read_field s = Some (f, c # r)" by simp
  then show ?case using read_field_length by fastforce
qed

lemma read_fields_length: "read_fields s = Some (fs, r) \<Longrightarrow> length r < length s"
proof (induction s arbitrary: fs rule: read_fields.induct)
  case (1 s)
  show ?case
  proof (cases "read_field s")
    case None
    with "1.prems" show ?thesis by (simp add: read_fields.simps [of s])
  next
    case (Some p)
    obtain f y where p: "p = (f, y)" by (cases p)
    show ?thesis
    proof (cases y)
      case Nil
      with "1.prems" Some p show ?thesis by (simp add: read_fields.simps [of s])
    next
      case (Cons c r')
      have le: "length (c # r') \<le> length s" using read_field_length [of s f "c # r'"] Some p Cons by simp
      show ?thesis
      proof (cases "c = CHR 0x2C")
        case True
        with "1.prems" Some p Cons obtain fs' where "read_fields r' = Some (fs', r)"
          by (auto simp: read_fields.simps [of s])
        with "1.IH" [OF Some p [symmetric] Cons True] le show ?thesis by fastforce
      next
        case False
        with "1.prems" Some p Cons le show ?thesis by (auto simp: read_fields.simps [of s] split: if_splits)
      qed
    qed
  qed
qed

function read_csv :: "string \<Rightarrow> string list list option" where
  "read_csv s =
     (if s = [] then Some []
      else (case read_fields s of None \<Rightarrow> None | Some (fs, r) \<Rightarrow> map_option (Cons fs) (read_csv r)))"
  by pat_completeness auto
termination
  by (relation "measure length") (auto simp del: read_fields.simps dest: read_fields_length)

declare read_fields.simps [simp del] read_csv.simps [simp del]

section \<open>The CSV round trip\<close>

lemma plain_field_app:
  "\<not> list_ex csv_special s \<Longrightarrow> c = CHR 0x2C \<or> c = CHR 0x0A \<Longrightarrow> plain_field (s @ c # r) = (s, c # r)"
  by (induction s) (auto simp: csv_special_def)

lemma quoted_body_Cons: "c \<noteq> CHR 0x22 \<Longrightarrow> s \<noteq> [] \<Longrightarrow> quoted_body (c # s) = map_option (apfst (Cons c)) (quoted_body s)"
  by (cases s) auto

lemma quoted_body_app:
  "c \<noteq> CHR 0x22 \<Longrightarrow> quoted_body (double_quotes s @ CHR 0x22 # c # r) = Some (s, c # r)"
  by (induction s) (auto simp: quoted_body_Cons)

lemma read_field_csv_field:
  assumes "c = CHR 0x2C \<or> c = CHR 0x0A"
  shows "read_field (csv_field s @ c # r) = Some (s, c # r)"
proof (cases "list_ex csv_special s")
  case True
  with assms show ?thesis by (auto simp: csv_field_def read_field_def quoted_body_app)
next
  case False
  then have "s = [] \<or> hd s \<noteq> CHR 0x22" by (cases s) (auto simp: csv_special_def)
  with False assms show ?thesis
    by (cases s) (auto simp: csv_field_def read_field_def plain_field_app csv_special_def)
qed

lemma read_fields_join:
  "fs \<noteq> [] \<Longrightarrow> read_fields (join_with [CHR 0x2C] (map csv_field fs) @ CHR 0x0A # r) = Some (fs, r)"
proof (induction fs)
  case Nil
  then show ?case by simp
next
  case (Cons x xs)
  show ?case
  proof (cases xs)
    case Nil
    then show ?thesis by (simp add: read_fields.simps read_field_csv_field)
  next
    case (Cons y zs)
    with "Cons.IH" show ?thesis by (simp add: read_fields.simps read_field_csv_field)
  qed
qed

lemma read_fields_csv_line:
  assumes "fs \<noteq> []"
  shows "read_fields (csv_line fs @ r) = Some (fs, r)"
proof (cases "fs = [[]]")
  case True
  then show ?thesis by (simp add: csv_line_def read_fields.simps read_field_def)
next
  case False
  with assms show ?thesis by (simp add: csv_line_def read_fields_join)
qed

lemma csv_line_not_Nil: "csv_line fs \<noteq> []"
  by (simp add: csv_line_def)

lemma read_csv_lines: "\<forall>fs\<in>set rows. fs \<noteq> [] \<Longrightarrow> read_csv (concat (map csv_line rows)) = Some rows"
proof (induction rows)
  case Nil
  then show ?case by (simp add: read_csv.simps)
next
  case (Cons fs rows)
  then show ?case
    by (simp add: read_csv.simps [of "csv_line fs @ _"] csv_line_not_Nil read_fields_csv_line)
qed

lemma to_csv_roundtrip:
  "header \<noteq> [] \<Longrightarrow> \<forall>fs\<in>set rows. fs \<noteq> [] \<Longrightarrow> read_csv (to_csv header rows) = Some (header # rows)"
  unfolding to_csv_def by (rule read_csv_lines) simp

section \<open>The display table\<close>

lemma display_table_eq:
  "display_table f =
     (if set display_cols \<subseteq> set (skpd_cols f) then Inr (sort_key d_kode (map to_display (skpd_rows f)))
      else Inl (key_error (filter (\<lambda>c. c \<notin> set (skpd_cols f)) display_cols)))"
  by (auto simp: display_table_def Let_def filter_empty_conv)

lemma map_d_kode_display: "map d_kode (sort_key d_kode (map to_display rs)) = sort (map kode rs)"
proof -
  have "map d_kode (sort_key (\<lambda>x. id (d_kode x)) (map to_display rs)) = sort_key id (map d_kode (map to_display rs))"
    by (rule map_sort_key)
  then show ?thesis by (simp add: comp_def to_display_def id_def)
qed

lemma round_half_even_bound:
  assumes q: "0 < q"
  shows "\<bar>of_int (round_half_even p q) - of_int p / of_int q\<bar> \<le> (1 / 2 :: rat)"
proof -
  define d where "d = p div q"
  define r where "r = p mod q"
  have r0: "0 \<le> r" and rq: "r < q" using q by (simp_all add: r_def)
  have qr: "(0::rat) < of_int q" using q by simp
  have pq: "of_int p / of_int q = of_int d + of_int r / (of_int q :: rat)"
  proof -
    have "p = d * q + r" by (simp add: d_def r_def)
    then have "(of_int p :: rat) = of_int d * of_int q + of_int r" by (metis of_int_add of_int_mult)
    with qr show ?thesis by (simp add: field_simps)
  qed
  have frac: "of_int r / of_int q \<le> (1 :: rat)" using rq qr by (simp add: divide_le_eq_1)
  have frac0: "(0 :: rat) \<le> of_int r / of_int q" using r0 qr by simp
  have lt: "2 * r < q \<Longrightarrow> of_int r / of_int q < (1 / 2 :: rat)"
    using qr by (simp add: divide_less_eq)
  have gt: "q < 2 * r \<Longrightarrow> (1 / 2 :: rat) < of_int r / of_int q"
    using qr by (simp add: less_divide_eq)
  have eq: "\<not> 2 * r < q \<Longrightarrow> \<not> q < 2 * r \<Longrightarrow> of_int r / of_int q = (1 / 2 :: rat)"
  proof -
    assume "\<not> 2 * r < q" "\<not> q < 2 * r"
    then have "of_int q = (2 * of_int r :: rat)" by (metis linorder_neqE_linordered_idom of_int_mult of_int_numeral) 
    with qr show ?thesis by (simp add: field_simps)
  qed
  show ?thesis
    using lt gt eq frac frac0 unfolding round_half_even_def Let_def d_def [symmetric] r_def [symmetric] pq
    by (auto split: if_splits)
qed

section \<open>The JSON export\<close>

lemma map_of_columns: "c \<in> set cs \<Longrightarrow> map_of (map (\<lambda>c. (c, g c)) cs) c = Some (g c)"
  by (induction cs) auto

lemma those_map_Some: "those (map Some xs) = Some xs"
  by (induction xs) auto

lemma json_to_row_record:
  assumes "set skpd_columns \<subseteq> set cs"
  shows "json_to_row (JObj (map (\<lambda>c. (c, json_cell r c)) cs)) = Some r"
proof -
  have "\<And>c. c \<in> set skpd_columns \<Longrightarrow> map_of (map (\<lambda>c. (c, json_cell r c)) cs) c = Some (json_cell r c)"
    using assms by (auto intro: map_of_columns)
  then show ?thesis
    by (cases r) (simp add: skpd_columns_def json_to_row_def json_cell_def json_str_def json_amount_def
        json_rat_def split: option.split)
qed

lemma export_json_records:
  assumes "set skpd_columns \<subseteq> set (skpd_cols f)"
  shows "read_json_records (export_json f) = Some (skpd_rows f)"
proof -
  have "map json_to_row (map (\<lambda>r. JObj (map (\<lambda>c. (c, json_cell r c)) (skpd_cols f))) (skpd_rows f)) =
        map Some (skpd_rows f)"
    using json_to_row_record [OF assms] by (simp add: map_eq_conv)
  then show ?thesis
    unfolding read_json_records_def export_json_def json.case by (metis those_map_Some)
qed

section \<open>Properties of the exports\<close>

text \<open>C13: the display table, when the four columns are present, shows every row of the
  filtered table once, formatted, in ascending order of code.\<close>

theorem display_table_sorted:
  assumes "display_table f = Inr ds"
  shows "sorted (map d_kode ds) \<and> mset ds = mset (map to_display (skpd_rows f)) \<and>
     map d_kode ds = sort (map kode (skpd_rows f))"
proof -
  from assms have "ds = sort_key d_kode (map to_display (skpd_rows f))"
    by (simp add: display_table_eq split: if_splits)
  then show ?thesis by (simp add: map_d_kode_display)
qed

theorem display_table_sorted_witness:
  "\<exists>ds. display_table example_frame = Inr ds \<and> sorted (map d_kode ds) \<and>
     map d_kode ds = [''1.02.0.00.0.00.01.0000'', ''3.25.0.00.0.00.01.0000''] \<and>
     mset ds = mset (map to_display (skpd_rows example_frame))"
proof -
  obtain ds where ds: "display_table example_frame = Inr ds"
    by (simp add: display_table_eq example_frame_def display_cols_def)
  have "sorted (map d_kode ds) \<and> mset ds = mset (map to_display (skpd_rows example_frame)) \<and>
     map d_kode ds = sort (map kode (skpd_rows example_frame))"
    by (rule display_table_sorted [OF ds])
  then show ?thesis using ds by (simp add: example_frame_def)
qed

text \<open>A table that lacks one of the four displayed columns makes the Data Detail tab
  raise \<open>KeyError\<close>.\<close>

theorem display_table_missing_column:
  "\<not> set display_cols \<subseteq> set (skpd_cols f) \<Longrightarrow> \<exists>e. display_table f = Inl (KeyError e)"
  by (simp add: display_table_eq key_error_def)

theorem display_table_missing_column_witness:
  "\<exists>e. display_table (example_frame\<lparr>skpd_cols := [''kode'', ''nama_skpd'', ''kategori'', ''anggaran'']\<rparr>) =
     Inl (KeyError e)"
  using display_table_missing_column [of "example_frame\<lparr>skpd_cols := [''kode'', ''nama_skpd'', ''kategori'', ''anggaran'']\<rparr>"]
  by (simp add: display_cols_def)


text \<open>C11: the CSV file reads back, by a standard CSV reader, as the header of the table's
  columns and one record per row holding exactly the cells pandas wrote, whatever
  commas, quotes or line breaks the names contain.\<close>

theorem export_csv_roundtrip:
  assumes "skpd_cols f \<noteq> []"
  shows "read_csv (export_csv fl f) =
     Some (skpd_cols f # map (\<lambda>r. map (csv_cell fl r) (skpd_cols f)) (skpd_rows f))"
  using assms unfolding export_csv_def by (intro to_csv_roundtrip) auto

theorem export_csv_roundtrip_witness:
  "read_csv (export_csv True example_frame) =
     Some [[''kode'', ''nama_skpd'', ''anggaran'', ''anggaran_miliar'', ''kategori''],
           [''3.25.0.00.0.00.01.0000'', ''Dinas '' @ [CHR 0x22] @ ''Pariwisata'' @ [CHR 0x22] @ '', Seni'',
            ''1500000000.0'', ''1.5'', ''Urusan Pilihan''],
           [''1.02.0.00.0.00.01.0000'', ''Dinas Kesehatan'', [], [], ''Urusan Wajib - Pelayanan Dasar'']]"
  using export_csv_roundtrip [of example_frame True]
  by (simp add: example_frame_def csv_cell_def int_text_def nat_digits_eval miliar_repr_def
      strip_zeros_def pad9_def miliar_def)


end
