(* ===== verification/Charts.thy ===== *)
theory Charts
  imports Metrics Exports "HOL-Library.Product_Lexorder"
begin

text \<open>
  The values the page shows above and beside the department table in
  \<open>src/dashboard_anggaran.py\<close>: the texts of the four \<open>st.metric\<close> cards
  (lines 297--304), the data of the Overview pie and bar charts of the category table
  (lines 315--342), the order of the comparison bar chart (lines 378--390) and the
  traces of the Trend tab's line and area charts (lines 412--439). Plotly's drawing is
  not modelled: a figure is the list of values plotly receives, grouped as
  \<open>plotly.express\<close> groups them (one slice per label, one trace per colour value in
  order of first appearance).
\<close>

section \<open>The metric cards (lines 297--304)\<close>

text \<open>\<open>f"Rp {x:.2f} M"\<close> of a value that may be NaN, after the division the card
  applies; \<open>format_miliar\<close> of the detail table is the case of a division by \<open>10^9\<close>.\<close>

definition scaled_text :: "rat \<Rightarrow> rat option \<Rightarrow> string \<Rightarrow> string" where
  "scaled_text d x unit = ''Rp '' @ (case x of None \<Rightarrow> ''nan'' | Some v \<Rightarrow> fixed2 (v / d)) @ unit"

definition metric_cards :: "metrics \<Rightarrow> (string \<times> string) list" where
  "metric_cards m =
     [(''Total Anggaran'', scaled_text 1000000000000 (Some (of_int (total m))) '' T''),
      (''Rata-rata SKPD'', scaled_text 1000000000 (rata_rata m) '' M''),
      (''Anggaran Tertinggi'', scaled_text 1000000000 (map_option of_int (tertinggi m)) '' M''),
      (''Jumlah SKPD'', int_text (int (jumlah_skpd m)))]"

section \<open>The Overview charts of the category table (lines 315--342)\<close>

text \<open>\<open>px.pie(values='anggaran_miliar', names='kategori')\<close>: one slice per label, the
  values of equal labels summed.\<close>

definition group_by :: "('a \<Rightarrow> 'k) \<Rightarrow> 'a list \<Rightarrow> ('k \<times> 'a list) list" where
  "group_by g xs = map (\<lambda>l. (l, filter (\<lambda>x. g x = l) xs)) (remdups (map g xs))"

definition pie_slices :: "kategori_row list \<Rightarrow> (string \<times> rat) list" where
  "pie_slices k = map (\<lambda>(l, rs). (l, sum_list (map kat_miliar rs))) (group_by kat_kategori k)"

text \<open>\<open>df_kategori.sort_values('anggaran_miliar', ascending=True)\<close>, the bars from
  bottom to top.\<close>

definition category_bars :: "kategori_row list \<Rightarrow> (string \<times> rat) list" where
  "category_bars k = map (\<lambda>r. (kat_kategori r, kat_miliar r)) (sort_key kat_miliar k)"

section \<open>The comparison bar chart (lines 378--390)\<close>

text \<open>\<open>compare_df.sort_values('anggaran_miliar', ascending=False)\<close>: largest first,
  NaN last (\<open>na_position='last'\<close>).\<close>

definition compare_bars :: "skpd_row list \<Rightarrow> (string \<times> rat option) list" where
  "compare_bars rows =
     map (\<lambda>r. (nama_skpd r, anggaran_miliar r))
       (sort_key (\<lambda>r. case anggaran_miliar r of None \<Rightarrow> (True, 0) | Some x \<Rightarrow> (False, - x)) rows)"

section \<open>The Trend tab (lines 412--439)\<close>

text \<open>\<open>px.line\<close> and \<open>px.area\<close> with \<open>x='tahun', y='anggaran_miliar',
  color='kategori'\<close>: one trace per category, its points in row order.\<close>

definition trend_traces :: "trend_row list \<Rightarrow> (string \<times> (int \<times> rat) list) list" where
  "trend_traces t = map (\<lambda>(l, rs). (l, map (\<lambda>r. (tahun r, tr_miliar r)) rs)) (group_by tr_kategori t)"

section \<open>Grouping\<close>

lemma sum_filter_eq_split:
  fixes v :: "'a \<Rightarrow> 'b::comm_monoid_add"
  assumes "finite A"
  shows "(\<Sum>l\<in>A. sum_list (map v (filter (\<lambda>x. g x = l) xs))) = sum_list (map v (filter (\<lambda>x. g x \<in> A) xs))"
proof (induction xs)
  case Nil
  then show ?case by simp
next
  case (Cons a xs)
  have "(\<Sum>l\<in>A. sum_list (map v (filter (\<lambda>x. g x = l) (a # xs)))) =
        (\<Sum>l\<in>A. (if g a = l then v a else 0) + sum_list (map v (filter (\<lambda>x. g x = l) xs)))"
    by (rule sum.cong) auto
  also have "\<dots> = (if g a \<in> A then v a else 0) + (\<Sum>l\<in>A. sum_list (map v (filter (\<lambda>x. g x = l) xs)))"
    using assms by (simp add: sum.distrib)
  finally show ?case using Cons by simp
qed

lemma group_by_sum:
  fixes v :: "'a \<Rightarrow> 'b::comm_monoid_add"
  shows "sum_list (map (\<lambda>(l, rs). sum_list (map v rs)) (group_by g xs)) = sum_list (map v xs)"
proof -
  have "sum_list (map (\<lambda>(l, rs). sum_list (map v rs)) (group_by g xs)) =
        (\<Sum>l\<in>set (map g xs). sum_list (map v (filter (\<lambda>x. g x = l) xs)))"
    by (simp only: sum.set_conv_list) (simp add: group_by_def comp_def)
  also have "\<dots> = sum_list (map v (filter (\<lambda>x. g x \<in> set (map g xs)) xs))"
    by (rule sum_filter_eq_split) simp
  also have "filter (\<lambda>x. g x \<in> set (map g xs)) xs = xs"
    by (simp add: filter_id_conv)
  finally show ?thesis .
qed

lemma mset_sum_list_singletons: "sum_list (map (\<lambda>x. {#x#}) xs) = mset xs"
  by (induction xs) (auto simp: add.commute)

lemma mset_concat_sum_list: "mset (concat xss) = sum_list (map mset xss)"
  by (induction xss) auto

lemma group_by_mset: "mset (concat (map snd (group_by g xs))) = mset xs"
proof -
  have "sum_list (map (\<lambda>(l, rs). sum_list (map (\<lambda>x. {#x#}) rs)) (group_by g xs)) =
        sum_list (map (\<lambda>x. {#x#}) xs)"
    by (rule group_by_sum)
  then show ?thesis
    by (simp add: mset_concat_sum_list mset_sum_list_singletons comp_def split_def)
qed

lemma group_by_map: "group_by g (map h xs) = map (\<lambda>(l, rs). (l, map h rs)) (group_by (\<lambda>x. g (h x)) xs)"
  by (simp add: group_by_def comp_def filter_map)

lemma distinct_group_by: "distinct (map fst (group_by g xs))"
  by (simp add: group_by_def comp_def)

section \<open>The charts of the static tables\<close>

lemma trend_traces_proj:
  "trend_traces t = map (\<lambda>(l, ps). (l, map snd ps)) (group_by fst (map (\<lambda>r. (tr_kategori r, tahun r, tr_miliar r)) t))"
  by (simp add: trend_traces_def group_by_map comp_def case_prod_beta)

lemma static_trend_proj:
  "map (\<lambda>r. (tr_kategori r, tahun r, tr_miliar r)) (snd (snd static_tables)) =
     zip trend_kategori_col (zip trend_tahun_col (map miliar trend_anggaran_col))"
proof -
  obtain K S T where eq: "static_tables = (map add_kat_miliar K, add_skpd_miliar S, map add_trend_miliar T)"
    and T: "trend_frame trend_tahun_col trend_kategori_col trend_anggaran_col = Inr T"
    by (rule static_tables_eq)
  from T show ?thesis
    by (auto simp: eq trend_frame_def split: if_splits intro!: nth_equalityI)
qed

section \<open>Properties of the charts and cards\<close>



text \<open>C33: when no row of the filtered table has an amount (an empty search result, or
  only NaN amounts), the mean and maximum cards show \<open>Rp nan M\<close> while the count card
  shows the number of rows.\<close>

theorem metric_cards_nan:
  assumes "list_all (\<lambda>r. anggaran r = None) (skpd_rows f)"
  shows "tl (metric_cards (summary_metrics k f)) =
     [(''Rata-rata SKPD'', ''Rp nan M''), (''Anggaran Tertinggi'', ''Rp nan M''),
      (''Jumlah SKPD'', int_text (int (length (skpd_rows f))))]"
proof -
  from assms have "nan_values (map anggaran (skpd_rows f)) = []"
    by (induction "skpd_rows f" arbitrary: f) (auto simp: nan_values_def List.map_filter_def list_all_iff)
  then show ?thesis
    by (simp add: metric_cards_def summary_metrics_def mean_amount_def max_amount_def scaled_text_def)
qed

theorem metric_cards_nan_witness:
  "tl (metric_cards (summary_metrics [] \<lparr>skpd_cols = [], skpd_rows = []\<rparr>)) =
     [(''Rata-rata SKPD'', ''Rp nan M''), (''Anggaran Tertinggi'', ''Rp nan M''), (''Jumlah SKPD'', ''0'')]"
  using metric_cards_nan [of "\<lparr>skpd_cols = [], skpd_rows = []\<rparr>" "[]"]
  by (simp add: int_text_def nat_digits_eval)

end
