(* ===== verification/Spec2Isabelle.thy ===== *)
theory Spec2Isabelle
  imports Source Charts
begin

text \<open>
  \<^bold>\<open>A verification model of the budget dashboard \<open>src/dashboard_anggaran.py\<close>.\<close>

  \<^bold>\<open>The program.\<close> One Streamlit script, rerun from the top on every interaction. It
  reads the sidebar settings (dark mode, a MySQL toggle and five connection inputs),
  resolves the three tables (categories, departments (SKPD), multi-year trend) either
  from MySQL or from a literal static dataset, filters the department table by a
  search box and a category multiselect, and renders metric cards, plotly charts, a
  detail table and three export buttons. The only state that survives a rerun is
  Streamlit's memo of the two cached loaders.

  \<^bold>\<open>How the theories model it.\<close>
  \<^item> \<open>Prelude\<close>: Python's exceptions as the datatype \<open>py_error\<close>; \<open>str.startswith\<close>,
    a literal, case-insensitive \<open>str.contains\<close> and \<open>str.join\<close> as the executable
    \<open>starts_with\<close>, \<open>contains\<close>, \<open>lower\<close>, \<open>join_with\<close>, the first two proved equal to
    \<open>prefix\<close> and \<open>sublist\<close>; shared list lemmas.
  \<^item> \<open>Dataset\<close>: \<open>load_static_data\<close> (lines 110--223). The DataFrames are lists of
    records (\<open>kategori_row\<close>, \<open>skpd_row\<close> in an \<open>skpd_frame\<close> that also records its
    column order, \<open>trend_row\<close>); \<open>pd.DataFrame(dict)\<close> is \<open>kategori_frame\<close>,
    \<open>skpd_frame_of\<close>, \<open>trend_frame\<close> with the length check that raises
    \<open>ValueError\<close>; the derived column \<open>anggaran_miliar\<close> is \<open>miliar\<close>, an exact
    rational. The literal columns are definitions of their own, kept folded in proofs.
  \<^item> \<open>Normalize\<close>: \<open>pd.to_numeric(errors='coerce')\<close> (line 103) as
    \<open>to_numeric_coerce\<close> over the SQL values \<open>SqlNull | SqlInt | SqlText\<close>, and the
    external normalization of lines 233--241 (\<open>normalize_external\<close>: billions
    column, then the prefix rule \<open>kategori_of_kode\<close> applied by \<open>apply_kategori\<close>,
    raising \<open>AttributeError\<close> on a NULL code); Python's \<open>str\<close> of an integer.
  \<^item> \<open>Source\<close>: \<open>select_source\<close> (line 227), \<open>get_mysql_connection\<close> (74--86),
    \<open>load_data_from_mysql\<close> (89--107), the memo of \<open>@st.cache_data(ttl=300)\<close> as
    explicit state \<open>load_cache\<close> threaded through \<open>load_data_cached\<close>, and the
    pipeline \<open>resolve_tables\<close> (226--252). The MySQL server is an environment record
    \<open>db_server\<close> of two outcome functions; every effect (connect, query, close,
    \<open>st.error/success/warning\<close>) is an \<open>io_event\<close> of a trace in program order.
    \<open>conn_ok\<close> is the connection discipline as a state machine over traces.
    \<open>test_connection\<close> is the sidebar button (54--67).
  \<^item> \<open>Filters\<close>: \<open>search_filter\<close> (258--266), \<open>category_options\<close> and
    \<open>category_filter\<close> (268--284), composed as \<open>filter_view\<close>.
  \<^item> \<open>Metrics\<close>: the four metrics with pandas' \<open>skipna\<close> (\<open>summary_metrics\<close>,
    288--295), \<open>nlargest\<close> with \<open>keep='first'\<close> as a stable sort and its contract
    \<open>is_top\<close>, the comparison tab's options, default, rows and radar loop
    (\<open>radar_traces\<close>, 363--410, raising \<open>IndexError\<close> for a name without a row).
  \<^item> \<open>Exports\<close>: the Data Detail tab (441--490). \<open>display_table\<close> selects, formats
    (\<open>f"Rp {x:.2f} M"\<close> as \<open>format_miliar\<close>, rounding half to even), renames and sorts
    by code, raising \<open>KeyError\<close> for a missing column; \<open>export_csv\<close> is
    \<open>to_csv(index=False)\<close> character by character (\<open>csv_field\<close> quotes as Python's
    \<open>csv\<close> writer, \<open>csv_cell\<close> prints strings, integers, floats and NaN as pandas
    does); \<open>export_json\<close> and \<open>export_excel\<close> are the JSON value and the three sheets
    the libraries serialize. A standard CSV reader \<open>read_csv\<close> (a \<open>function\<close> with a
    length measure) and a JSON record reader state what a consumer gets back.
  \<^item> \<open>Charts\<close>: the metric card texts (297--304), the pie and sorted bar of the
    category table (315--342), the comparison bars (378--390) and the trend traces
    (412--439), each the data plotly receives, grouped as \<open>plotly.express\<close> groups it.
  \<^item> This theory: one rerun of the script below the sidebar, \<open>dashboard_run\<close>
    (226--490), returning the page or the exception that ends it, the event trace and
    the new cache, and the properties that span the components.

  \<^bold>\<open>What the lemmas show.\<close> The pipeline respects the connection discipline on every
  path; it falls back to the static data on a disabled toggle, an empty parameter, a
  refused connection or a failed query; the category and trend tables are always the
  static ones and every department table carries a consistent billions column and the
  five columns; a cache hit never queries, and a stale entry re-queries. A whole rerun
  can only end in the \<open>AttributeError\<close> of a NULL code, and every page it renders is
  consistent: filtered rows, metrics, top ten, detail table and exports all come from
  the filtered table. The filters only select rows, commute, are idempotent and are the
  identity on an empty term and on the default selection; the search ignores case.
  \<open>nlargest\<close> meets its top-n contract, the maximum metric is the first bar, the mean
  lies between minimum and maximum, the radar loop cannot raise for selections the
  widget allows. The CSV export reads back as the header and cells written, whatever
  quotes, commas or line breaks the names hold; the JSON export reads back as the rows;
  the detail table is the rows sorted by code; its amounts are within half a hundredth
  of the exact value. The pie slices add up to the category table. Coercion reads back
  every integer text. The static dataset has the shape and invariants of the data
  model, and its trend points for 2025 are the amounts of the departments they name.
  Concrete runs evaluate the spec's examples.

  \<^bold>\<open>What the lemmas expose\<close> (the manifest's findings): 36 static departments where
  the spec says 35; a NULL \<open>kode_wilayah\<close> crashes the page instead of falling back;
  the loader's memo ignores its connection argument and also memoizes failures for
  five minutes; an empty category selection shows every row, not none; the total
  metric is the static category table's sum in every mode and under every filter; the
  prefix rule misclassifies 17 of the 36 static departments; \<open>str.contains\<close> reads
  the term as a regular expression; the CSV header order depends on the data source;
  a search without result shows \<open>Rp nan M\<close> cards.

  \<^bold>\<open>Bounds and time.\<close> Every recursion is structural, on \<open>n div 10\<close> (\<open>nat_digits\<close>),
  or, for the CSV reader, on the length of the remaining text, proved decreasing. The
  cache's clock is an integer number of seconds; an entry stored at \<open>t\<close> is served
  while \<open>now < t + 300\<close>, as the TTL cache Streamlit uses does. Amounts are unbounded
  integers: all sums of the static data are below \<open>2^63\<close>, so pandas' int64
  arithmetic does not wrap on them. Floats: the billions column is the exact quotient;
  the CSV texts of floats (\<open>miliar_repr\<close>, \<open>n.0\<close>) are Python's shortest \<open>repr\<close> for
  amounts below \<open>10^15\<close>, where the exact decimal has at most 15 significant digits
  and so is the shortest text of the float; \<open>.2f\<close> is computed on the exact value,
  which differs from the float's rounding only at a tie.

  \<^bold>\<open>Not modelled.\<close> Page configuration, CSS theme, chart styling, the footer and
  the Reset button (presentation only, or a plain rerun); plotly's drawing of the
  figures and Streamlit's widgets (their values are inputs); the regular-expression
  reading of the search term (the model matches literally, which is the code's
  behaviour for a term without metacharacters); Unicode case folding beyond ASCII;
  the byte-level JSON and xlsx encodings; decimal fractions in \<open>to_numeric\<close>.
\<close>

section \<open>One rerun of the script\<close>

text \<open>The widget values of one rerun below the sidebar: the search box, the category
  multiselect and the comparison multiselect, \<open>None\<close> where the widget still shows
  its default.\<close>

record ui_input =
  search_term :: string
  selected_categories :: "string list option"
  skpd_to_compare :: "string list option"

record page =
  page_tables :: tables
  page_filtered :: skpd_frame
  page_metrics :: metrics
  page_top :: "skpd_row list"
  page_compare :: "skpd_row list"
  page_cards :: "(string \<times> string) list"
  page_pie :: "(string \<times> rat) list"
  page_bars :: "(string \<times> rat) list"
  page_compare_bars :: "(string \<times> rat option) list"
  page_trend :: "(string \<times> (int \<times> rat) list) list"
  page_display :: "display_row list"
  page_csv :: string
  page_json :: json
  page_excel :: "sheet list"

text \<open>
  Lines 226--490: resolve the tables, filter, compute the metrics and their cards, the
  Overview charts and the top ten, the comparison rows and bars, run the radar loop, whose \<open>IndexError\<close> would end the rerun, then
  build the Trend tab, the Data Detail tab, whose column selection may raise
  \<open>KeyError\<close>, and the three exports. The comparison rows are computed only for a non-empty selection
  (line 374). The CSV writes the amount column as floats when the loaded table holds a
  NaN amount (the dtype of the unfiltered column).
\<close>

definition dashboard_run ::
  "db_server \<Rightarrow> db_config \<Rightarrow> load_cache \<Rightarrow> int \<Rightarrow> ui_input \<Rightarrow> (py_error + page) \<times> io_event list \<times> load_cache" where
  "dashboard_run srv c cache now ui =
     (let r = resolve_tables srv c cache now in
      ((case outcome r of
         Inl e \<Rightarrow> Inl e
       | Inr (df_kategori, df_skpd, df_trend) \<Rightarrow>
           (let sel = (case selected_categories ui of None \<Rightarrow> category_options df_skpd | Some s \<Rightarrow> s);
                flt = filter_view (search_term ui) sel df_skpd;
                cmp = (case skpd_to_compare ui of None \<Rightarrow> compare_default flt | Some s \<Rightarrow> s)
            in (case (if cmp \<noteq> [] then radar_traces cmp flt else Inr []) of
                  Inl e \<Rightarrow> Inl e
                | Inr _ \<Rightarrow>
                    (case display_table flt of
                       Inl e \<Rightarrow> Inl e
                     | Inr ds \<Rightarrow>
                         Inr \<lparr>page_tables = (df_kategori, df_skpd, df_trend), page_filtered = flt,
                              page_metrics = summary_metrics df_kategori flt, page_top = top_skpd flt,
                              page_compare = compare_rows cmp flt,
                              page_cards = metric_cards (summary_metrics df_kategori flt),
                              page_pie = pie_slices df_kategori, page_bars = category_bars df_kategori,
                              page_compare_bars = compare_bars (compare_rows cmp flt),
                              page_trend = trend_traces df_trend, page_display = ds,
                              page_csv = export_csv (list_ex (\<lambda>r. anggaran r = None) (skpd_rows df_skpd)) flt,
                              page_json = export_json flt,
                              page_excel = export_excel flt df_kategori df_trend\<rparr>)))),
      events r, cache' r))"

section \<open>Properties of a whole rerun\<close>

lemma radar_default_Inr: "\<exists>ps. radar_traces (compare_default f) f = Inr ps"
  using compare_rows_names [OF compare_default_options] radar_points_Inr by (metis radar_traces_def)

lemma filter_view_cols [simp]: "skpd_cols (filter_view t sel f) = skpd_cols f"
  by (simp add: filter_view_def)

lemma display_resolved:
  assumes "outcome (resolve_tables srv c cache now) = Inr (k, s, t)"
  shows "display_table (filter_view term sel s) =
     Inr (sort_key d_kode (map to_display (skpd_rows (filter_view term sel s))))"
  using resolve_tables_cols [OF assms] by (auto simp: display_table_eq display_cols_def)

lemma dashboard_run_Inr:
  assumes "fst (dashboard_run srv c cache now ui) = Inr pg"
  shows "\<exists>sel fl. outcome (resolve_tables srv c cache now) = Inr (page_tables pg) \<and>
     page_filtered pg = filter_view (search_term ui) sel (fst (snd (page_tables pg))) \<and>
     page_metrics pg = summary_metrics (fst (page_tables pg)) (page_filtered pg) \<and>
     page_top pg = top_skpd (page_filtered pg) \<and>
     display_table (page_filtered pg) = Inr (page_display pg) \<and>
     page_csv pg = export_csv fl (page_filtered pg) \<and> page_json pg = export_json (page_filtered pg) \<and>
     page_excel pg = export_excel (page_filtered pg) (fst (page_tables pg)) (snd (snd (page_tables pg)))"
  using assms
  by (auto simp: dashboard_run_def Let_def split: sum.splits prod.splits if_splits)

lemma filter_view_subseq: "subseq (skpd_rows (filter_view t sel f)) (skpd_rows f)"
  by (simp add: filter_view_def category_filter_rows search_filter_rows)

lemma static_run_resolve:
  "select_source c = Static \<Longrightarrow> resolve_tables srv c cache now = \<lparr>outcome = Inr static_tables, events = [], cache' = cache\<rparr>"
  by (simp add: resolve_tables_def load_static_data_static_tables)

lemma dashboard_run_Inr_intro:
  assumes "outcome (resolve_tables srv c cache now) = Inr (k, s, t)" and "skpd_to_compare ui = None"
  shows "\<exists>pg. fst (dashboard_run srv c cache now ui) = Inr pg \<and> page_tables pg = (k, s, t) \<and>
     page_filtered pg = filter_view (search_term ui)
        (case selected_categories ui of None \<Rightarrow> category_options s | Some sl \<Rightarrow> sl) s \<and>
     page_metrics pg = summary_metrics k (page_filtered pg) \<and> page_cards pg = metric_cards (page_metrics pg)"
proof -
  let ?flt = "filter_view (search_term ui) (case selected_categories ui of None \<Rightarrow> category_options s | Some sl \<Rightarrow> sl) s"
  obtain ps where "radar_traces (compare_default ?flt) ?flt = Inr ps"
    using radar_default_Inr by blast
  with assms display_resolved [OF assms(1)] show ?thesis
    by (auto simp: dashboard_run_def Let_def)
qed


lemma page_csv_header:
  assumes "fst (dashboard_run srv c cache now ui) = Inr pg"
  shows "hd (the (read_csv (page_csv pg))) = skpd_cols (fst (snd (page_tables pg)))"
proof -
  from dashboard_run_Inr [OF assms] obtain sel fl where
    res: "outcome (resolve_tables srv c cache now) = Inr (page_tables pg)" and
    flt: "page_filtered pg = filter_view (search_term ui) sel (fst (snd (page_tables pg)))" and
    csv: "page_csv pg = export_csv fl (page_filtered pg)"
    by blast
  have "skpd_cols (fst (snd (page_tables pg))) \<noteq> []"
    using resolve_tables_cols [OF res] by auto
  then have "read_csv (page_csv pg) = Some (skpd_cols (fst (snd (page_tables pg))) #
      map (\<lambda>r. map (csv_cell fl r) (skpd_cols (page_filtered pg))) (skpd_rows (page_filtered pg)))"
    unfolding csv export_csv_def flt filter_view_cols by (intro to_csv_roundtrip) auto
  then show ?thesis by simp
qed

lemma external_run_resolve:
  "outcome (resolve_tables (rows_server rs) example_config None now) = external_tables (coerce_frame rs)"
  by (cases "external_tables (coerce_frame rs)")
     (simp_all add: resolve_tables_def get_mysql_connection_def load_data_cached_def load_data_from_mysql_def
       example_config_def select_source_def rows_server_def)




text \<open>C3: every page a rerun renders is consistent: the filtered table is a subsequence of the resolved department table, the row-count metric is its length, the top-ten bars are rows of it, and the total is the static category sum.\<close>

theorem dashboard_page_consistent:
  assumes "fst (dashboard_run srv c cache now ui) = Inr pg"
  shows "subseq (skpd_rows (page_filtered pg)) (skpd_rows (fst (snd (page_tables pg)))) \<and>
     jumlah_skpd (page_metrics pg) = length (skpd_rows (page_filtered pg)) \<and>
     set (page_top pg) \<subseteq> set (skpd_rows (page_filtered pg)) \<and>
     total (page_metrics pg) = 835588906912"
proof -
  from dashboard_run_Inr [OF assms] obtain sel where
    res: "outcome (resolve_tables srv c cache now) = Inr (page_tables pg)" and
    flt: "page_filtered pg = filter_view (search_term ui) sel (fst (snd (page_tables pg)))" and
    met: "page_metrics pg = summary_metrics (fst (page_tables pg)) (page_filtered pg)" and
    top: "page_top pg = top_skpd (page_filtered pg)"
    by blast
  from resolve_tables_Inr_cases [OF res] have "fst (page_tables pg) = fst static_tables"
    by (metis external_tables_Inr)
  then have "total (page_metrics pg) = 835588906912"
    by (simp add: met summary_metrics_def static_total)
  moreover have "subseq (skpd_rows (page_filtered pg)) (skpd_rows (fst (snd (page_tables pg))))"
    by (simp add: flt filter_view_subseq)
  moreover have "set (page_top pg) \<subseteq> set (skpd_rows (page_filtered pg))"
    by (simp add: top top_skpd_def set_nlargest)
  ultimately show ?thesis by (simp add: met summary_metrics_def)
qed

theorem dashboard_page_consistent_witness:
  "\<exists>pg. fst (dashboard_run refused_server (example_config\<lparr>use_db := False\<rparr>) None 0
        \<lparr>search_term = ''dinas'', selected_categories = None, skpd_to_compare = None\<rparr>) = Inr pg \<and>
     subseq (skpd_rows (page_filtered pg)) (skpd_rows (fst (snd (page_tables pg)))) \<and>
     jumlah_skpd (page_metrics pg) = length (skpd_rows (page_filtered pg)) \<and>
     set (page_top pg) \<subseteq> set (skpd_rows (page_filtered pg)) \<and>
     total (page_metrics pg) = 835588906912"
proof -
  obtain k s t where st: "static_tables = (k, s, t)" by (cases static_tables) auto
  have "select_source (example_config\<lparr>use_db := False\<rparr>) = Static" by (simp add: select_source_def)
  then have res: "outcome (resolve_tables refused_server (example_config\<lparr>use_db := False\<rparr>) None 0) = Inr (k, s, t)"
    by (simp add: static_run_resolve st)
  from dashboard_run_Inr_intro [OF res, where ui="\<lparr>search_term = ''dinas'', selected_categories = None, skpd_to_compare = None\<rparr>"]
  obtain pg where pg: "fst (dashboard_run refused_server (example_config\<lparr>use_db := False\<rparr>) None 0
        \<lparr>search_term = ''dinas'', selected_categories = None, skpd_to_compare = None\<rparr>) = Inr pg"
    by auto
  show ?thesis
    using pg dashboard_page_consistent [OF pg] by blast
qed


text \<open>C10: the Data Detail tab and the three exports of a rendered page are built from the
  filtered table, which has the five columns: the CSV reads back as its header and
  rows, the JSON as its rows, the workbook holds it with the whole category and trend
  tables, and the detail table lists its codes in ascending order.\<close>

theorem dashboard_exports:
  assumes "fst (dashboard_run srv c cache now ui) = Inr pg"
  shows "(\<exists>fl. read_csv (page_csv pg) = Some (skpd_cols (page_filtered pg) #
            map (\<lambda>r. map (csv_cell fl r) (skpd_cols (page_filtered pg))) (skpd_rows (page_filtered pg)))) \<and>
     read_json_records (page_json pg) = Some (skpd_rows (page_filtered pg)) \<and>
     map sheet_name (page_excel pg) = [''Anggaran SKPD'', ''Kategori'', ''Trend''] \<and>
     map sheet_cells (page_excel pg) =
       [skpd_sheet (page_filtered pg), kategori_sheet (fst static_tables), trend_sheet (snd (snd static_tables))] \<and>
     map d_kode (page_display pg) = sort (map kode (skpd_rows (page_filtered pg)))"
proof -
  from dashboard_run_Inr [OF assms] obtain sel fl where
    res: "outcome (resolve_tables srv c cache now) = Inr (page_tables pg)" and
    flt: "page_filtered pg = filter_view (search_term ui) sel (fst (snd (page_tables pg)))" and
    dsp: "display_table (page_filtered pg) = Inr (page_display pg)" and
    csv: "page_csv pg = export_csv fl (page_filtered pg)" and
    json: "page_json pg = export_json (page_filtered pg)" and
    xl: "page_excel pg = export_excel (page_filtered pg) (fst (page_tables pg)) (snd (snd (page_tables pg)))"
    by blast
  have cols: "skpd_cols (page_filtered pg) = [''kode'', ''nama_skpd'', ''kategori'', ''anggaran'', ''anggaran_miliar''] \<or>
      skpd_cols (page_filtered pg) = [''kode'', ''nama_skpd'', ''anggaran'', ''anggaran_miliar'', ''kategori'']"
    using resolve_tables_cols [OF res] by (simp add: flt)
  from resolve_tables_Inr_cases [OF res] have st: "fst (page_tables pg) = fst static_tables \<and>
      snd (snd (page_tables pg)) = snd (snd static_tables)"
    by (metis external_tables_Inr)
  have "read_csv (page_csv pg) = Some (skpd_cols (page_filtered pg) #
            map (\<lambda>r. map (csv_cell fl r) (skpd_cols (page_filtered pg))) (skpd_rows (page_filtered pg)))"
    unfolding csv export_csv_def using cols by (intro to_csv_roundtrip) auto
  moreover have "read_json_records (page_json pg) = Some (skpd_rows (page_filtered pg))"
    unfolding json using cols by (intro export_json_records) (auto simp: skpd_columns_def)
  moreover have "page_display pg = sort_key d_kode (map to_display (skpd_rows (page_filtered pg)))"
    using dsp by (simp add: display_table_eq split: if_splits)
  then have "map d_kode (page_display pg) = sort (map kode (skpd_rows (page_filtered pg)))"
    by (simp add: map_d_kode_display)
  ultimately show ?thesis using st by (auto simp: xl export_excel_def)
qed

theorem dashboard_exports_witness:
  "\<exists>pg. fst (dashboard_run refused_server (example_config\<lparr>use_db := False\<rparr>) None 0
        \<lparr>search_term = ''badan'', selected_categories = None, skpd_to_compare = None\<rparr>) = Inr pg \<and>
     (\<exists>fl. read_csv (page_csv pg) = Some (skpd_cols (page_filtered pg) #
            map (\<lambda>r. map (csv_cell fl r) (skpd_cols (page_filtered pg))) (skpd_rows (page_filtered pg)))) \<and>
     read_json_records (page_json pg) = Some (skpd_rows (page_filtered pg)) \<and>
     map sheet_name (page_excel pg) = [''Anggaran SKPD'', ''Kategori'', ''Trend''] \<and>
     map sheet_cells (page_excel pg) =
       [skpd_sheet (page_filtered pg), kategori_sheet (fst static_tables), trend_sheet (snd (snd static_tables))] \<and>
     map d_kode (page_display pg) = sort (map kode (skpd_rows (page_filtered pg)))"
proof -
  obtain k s t where st: "static_tables = (k, s, t)" by (cases static_tables) auto
  have "select_source (example_config\<lparr>use_db := False\<rparr>) = Static" by (simp add: select_source_def)
  then have res: "outcome (resolve_tables refused_server (example_config\<lparr>use_db := False\<rparr>) None 0) = Inr (k, s, t)"
    by (simp add: static_run_resolve st)
  from dashboard_run_Inr_intro [OF res, where ui="\<lparr>search_term = ''badan'', selected_categories = None, skpd_to_compare = None\<rparr>"]
  obtain pg where pg: "fst (dashboard_run refused_server (example_config\<lparr>use_db := False\<rparr>) None 0
        \<lparr>search_term = ''badan'', selected_categories = None, skpd_to_compare = None\<rparr>) = Inr pg"
    by auto
  show ?thesis
    by (rule exI [of _ pg], rule conjI [OF pg dashboard_exports [OF pg]])
qed

text \<open>C36: the CSV header is not one canonical list of field names: the static data is
  exported with the category column third, data loaded from MySQL with it last.\<close>

theorem export_header_by_source:
  "\<exists>pg1 pg2.
     fst (dashboard_run refused_server (example_config\<lparr>use_db := False\<rparr>) None 0
        \<lparr>search_term = [], selected_categories = None, skpd_to_compare = None\<rparr>) = Inr pg1 \<and>
     fst (dashboard_run (rows_server [example_raw_row]) example_config None 0
        \<lparr>search_term = [], selected_categories = None, skpd_to_compare = None\<rparr>) = Inr pg2 \<and>
     hd (the (read_csv (page_csv pg1))) = [''kode'', ''nama_skpd'', ''kategori'', ''anggaran'', ''anggaran_miliar''] \<and>
     hd (the (read_csv (page_csv pg2))) = [''kode'', ''nama_skpd'', ''anggaran'', ''anggaran_miliar'', ''kategori'']"
proof -
  let ?ui = "\<lparr>search_term = [], selected_categories = None, skpd_to_compare = None\<rparr>"
  obtain k s t where st: "static_tables = (k, s, t)" by (cases static_tables) auto
  have "select_source (example_config\<lparr>use_db := False\<rparr>) = Static" by (simp add: select_source_def)
  then have res1: "outcome (resolve_tables refused_server (example_config\<lparr>use_db := False\<rparr>) None 0) = Inr (k, s, t)"
    by (simp add: static_run_resolve st)
  from dashboard_run_Inr_intro [OF res1, where ui="?ui"]
  obtain pg1 where pg1: "fst (dashboard_run refused_server (example_config\<lparr>use_db := False\<rparr>) None 0 ?ui) = Inr pg1"
    and t1: "page_tables pg1 = (k, s, t)"
    by auto
  have h1: "hd (the (read_csv (page_csv pg1))) = [''kode'', ''nama_skpd'', ''kategori'', ''anggaran'', ''anggaran_miliar'']"
    using page_csv_header [OF pg1] static_skpd_cols by (simp add: t1 st)
  obtain f where nf: "normalize_external (coerce_frame [example_raw_row]) = Inr f"
    by (simp add: normalize_external_eq coerce_frame_def example_raw_row_def)
  have fc: "skpd_cols f = [''kode'', ''nama_skpd'', ''anggaran'', ''anggaran_miliar'', ''kategori'']"
    using nf by (auto simp: normalize_external_eq split: if_splits)
  have res2: "outcome (resolve_tables (rows_server [example_raw_row]) example_config None 0) = Inr (k, f, t)"
    by (simp add: external_run_resolve external_tables_eq nf load_static_data_static_tables st)
  from dashboard_run_Inr_intro [OF res2, where ui="?ui"]
  obtain pg2 where pg2: "fst (dashboard_run (rows_server [example_raw_row]) example_config None 0 ?ui) = Inr pg2"
    and t2: "page_tables pg2 = (k, f, t)"
    by auto
  have h2: "hd (the (read_csv (page_csv pg2))) = [''kode'', ''nama_skpd'', ''anggaran'', ''anggaran_miliar'', ''kategori'']"
    using page_csv_header [OF pg2] by (simp add: t2 fc)
  show ?thesis
    by (rule exI [of _ pg1], rule exI [of _ pg2], intro conjI, fact pg1, fact pg2, fact h1, fact h2)
qed

text \<open>C37: the spec's search example as a whole rerun on the static data: the term kesehatan leaves the single row Dinas Kesehatan, whose amount is the maximum metric, while the total stays the category sum.\<close>

theorem dashboard_search_example:
  "\<exists>pg. fst (dashboard_run refused_server (example_config\<lparr>use_db := False\<rparr>) None 0
        \<lparr>search_term = ''kesehatan'', selected_categories = None, skpd_to_compare = None\<rparr>) = Inr pg \<and>
     map nama_skpd (skpd_rows (page_filtered pg)) = [''Dinas Kesehatan''] \<and>
     jumlah_skpd (page_metrics pg) = 1 \<and> tertinggi (page_metrics pg) = Some 165156847795 \<and>
     total (page_metrics pg) = 835588906912 \<and>
     page_cards pg = [(''Total Anggaran'', ''Rp 0.84 T''), (''Rata-rata SKPD'', ''Rp 165.16 M''),
                      (''Anggaran Tertinggi'', ''Rp 165.16 M''), (''Jumlah SKPD'', ''1'')]"
proof -
  obtain k s t where st: "static_tables = (k, s, t)" by (cases static_tables) auto
  have "select_source (example_config\<lparr>use_db := False\<rparr>) = Static" by (simp add: select_source_def)
  then have res: "outcome (resolve_tables refused_server (example_config\<lparr>use_db := False\<rparr>) None 0) = Inr (k, s, t)"
    by (simp add: static_run_resolve st)
  have ld: "load_static_data = Inr (k, s, t)" by (simp add: load_static_data_static_tables st)
  let ?flt = "filter_view ''kesehatan'' (category_options s) s"
  have pairs: "map (\<lambda>r. (nama_skpd r, anggaran r)) (skpd_rows ?flt) = [(''Dinas Kesehatan'', Some 165156847795)]"
    by (simp add: static_search_rows [OF ld] skpd_nama_col_def skpd_anggaran_col_def name_matches_def lower_def)
  have names: "map nama_skpd (skpd_rows ?flt) = [''Dinas Kesehatan'']"
    using arg_cong [OF pairs, of "map fst"] by (simp add: comp_def)
  have amounts: "map anggaran (skpd_rows ?flt) = [Some 165156847795]"
    using arg_cong [OF pairs, of "map snd"] by (simp add: comp_def)
  have len: "length (skpd_rows ?flt) = 1" using arg_cong [OF names, of length] by simp
  have k: "k = fst static_tables" by (simp add: st)
  from dashboard_run_Inr_intro [OF res, where ui="\<lparr>search_term = ''kesehatan'', selected_categories = None, skpd_to_compare = None\<rparr>"]
  obtain pg where
    pg: "fst (dashboard_run refused_server (example_config\<lparr>use_db := False\<rparr>) None 0
        \<lparr>search_term = ''kesehatan'', selected_categories = None, skpd_to_compare = None\<rparr>) = Inr pg"
    and flt: "page_filtered pg = ?flt" and met: "page_metrics pg = summary_metrics k (page_filtered pg)"
    and cards: "page_cards pg = metric_cards (page_metrics pg)"
    by auto
  have tot: "total (page_metrics pg) = 835588906912" by (simp add: met summary_metrics_def k static_total)
  have mx: "tertinggi (page_metrics pg) = Some 165156847795"
    by (simp add: met flt summary_metrics_def amounts max_amount_def)
  have jm: "jumlah_skpd (page_metrics pg) = 1" by (simp add: met flt summary_metrics_def len)
  have rt: "rata_rata (page_metrics pg) = Some 165156847795"
    by (simp add: met flt summary_metrics_def amounts mean_amount_def nan_values_def List.map_filter_def)
  have "page_metrics pg = \<lparr>total = 835588906912, rata_rata = Some 165156847795,
      tertinggi = Some 165156847795, jumlah_skpd = 1\<rparr>"
    using tot rt mx jm by (cases "page_metrics pg") simp
  moreover have "metric_cards \<lparr>total = 835588906912, rata_rata = Some 165156847795,
      tertinggi = Some 165156847795, jumlah_skpd = 1\<rparr> =
      [(''Total Anggaran'', ''Rp 0.84 T''), (''Rata-rata SKPD'', ''Rp 165.16 M''),
       (''Anggaran Tertinggi'', ''Rp 165.16 M''), (''Jumlah SKPD'', ''1'')]"
    by code_simp
  ultimately have cd: "page_cards pg = [(''Total Anggaran'', ''Rp 0.84 T''), (''Rata-rata SKPD'', ''Rp 165.16 M''),
      (''Anggaran Tertinggi'', ''Rp 165.16 M''), (''Jumlah SKPD'', ''1'')]"
    by (simp add: cards)
  show ?thesis
    by (intro exI[of _ pg] conjI) (simp_all only: pg flt names jm mx tot cd)
qed
end
